theory Spec2Isabelle
  imports Main
begin

section \<open>Values, exceptions and the observable trace\<close>

text \<open>
  The application (\<^verbatim>\<open>app.py\<close>) is a Flask program with three parts: a downloader
  that runs when the module is imported, a lazily filled cache of two deserialised
  artifacts, and two route handlers. Everything it does beyond computing values is
  made explicit here: the file system and the two module-level cache variables are
  fields of a \<open>world\<close> record that every function takes and returns, every raised
  exception is an \<open>Inl\<close> result, and the calls whose number matters (HTTP requests,
  \<^verbatim>\<open>joblib.load\<close>, \<^verbatim>\<open>model.predict\<close>, \<^verbatim>\<open>print\<close>) are appended to a trace.
\<close>

type_synonym path = string
type_synonym url = string
type_synonym blob = "nat list"

text \<open>
  The exceptions that can occur. All of them are subclasses of Python's
  \<^verbatim>\<open>Exception\<close>; \<^verbatim>\<open>KeyboardInterrupt\<close> and \<^verbatim>\<open>SystemExit\<close> are outside the model.
\<close>

datatype exn =
    RequestException
  | HTTPError nat
  | OSError
  | FileNotFoundError
  | UnpicklingError
  | TypeError
  | KeyError string
  | ValueError
  | IndexError

text \<open>
  The lines the program prints, one constructor per \<^verbatim>\<open>print\<close> call of the source.
  Printing is taken to succeed.
\<close>

datatype message =
    NoUrl path
  | Downloading path url
  | Downloaded path
  | DownloadFailed path exn
  | AlreadyExists path
  | LoadingModels
  | ModelsLoaded

datatype event = Print message | HttpGet url | Load path | Predict

text \<open>
  A cell of the one-row data frame, and the row itself: the columns in the order of the
  dictionary literal that builds the frame.
\<close>

datatype 'f cell = CStr string | CInt int | CFloat 'f

type_synonym 'f row = "(string \<times> 'f cell) list"

text \<open>
  What \<^verbatim>\<open>joblib.load\<close> can return. The handler reads four entries of the loaded
  dictionaries, \<^verbatim>\<open>"model"\<close>, \<^verbatim>\<open>"encoders"\<close>, \<^verbatim>\<open>"scaler"\<close> and \<^verbatim>\<open>"num_cols"\<close>; an
  \<open>artifact\<close> is a dictionary restricted to these keys, \<open>None\<close> for a key that is not in
  it. An entry that is present has the type the handler uses it at: the model is its
  \<^verbatim>\<open>predict\<close> method, a label encoder is its list \<^verbatim>\<open>classes_\<close>, the scaler is its
  \<^verbatim>\<open>transform\<close> method on the selected cells of the row. \<open>PyNone\<close> is Python's
  \<^verbatim>\<open>None\<close>, which a file can deserialise to and which the cache variables start as.
\<close>

record 'f artifact =
  b_model :: "('f row \<Rightarrow> exn + 'f list list) option"
  b_encoders :: "(string \<times> string list) list option"
  b_scaler :: "('f cell list \<Rightarrow> exn + 'f list) option"
  b_num_cols :: "string list option"

datatype 'f pyobj = PyNone | Artifact "'f artifact"

fun is_None :: "'f pyobj \<Rightarrow> bool" where
  "is_None PyNone = True"
| "is_None (Artifact b) = False"

text \<open>The outcome of \<^verbatim>\<open>requests.get\<close>, and of opening the file and writing to it.\<close>

datatype http_outcome = GetRaises exn | Response nat blob

datatype write_outcome = OpenFails exn | WriteFails exn blob | WriteOk

text \<open>
  The behaviour of everything outside \<^verbatim>\<open>app.py\<close> is a parameter. The network and
  the disk are given the length of the trace so far, so that the same request may fail
  once and succeed later. The float type \<open>'f\<close> is left abstract, since the handler
  only converts, passes on and rounds floats:
  \<^item> \<open>float_of_str\<close> is \<^verbatim>\<open>float(s)\<close> on a string (\<open>None\<close>: \<^verbatim>\<open>ValueError\<close>);
  \<^item> \<open>float_of_int\<close> is \<^verbatim>\<open>float(n)\<close> on an integer;
  \<^item> \<open>float_lit\<close> is the value of a float literal of the source text;
  \<^item> \<open>int_str\<close> and \<open>float_str\<close> are \<^verbatim>\<open>astype(str)\<close> on a number;
  \<^item> \<open>round2\<close> is \<^verbatim>\<open>round(y, 2)\<close>.
\<close>

record 'f env =
  requests_get :: "nat \<Rightarrow> url \<Rightarrow> http_outcome"
  open_write :: "nat \<Rightarrow> path \<Rightarrow> blob \<Rightarrow> write_outcome"
  unpickle :: "blob \<Rightarrow> exn + 'f pyobj"
  float_of_str :: "string \<Rightarrow> 'f option"
  float_of_int :: "int \<Rightarrow> 'f"
  float_lit :: "string \<Rightarrow> 'f"
  int_str :: "int \<Rightarrow> string"
  float_str :: "'f \<Rightarrow> string"
  round2 :: "'f \<Rightarrow> 'f"

record 'f world =
  files :: "path \<rightharpoonup> blob"
  trace :: "event list"
  model_bundle :: "'f pyobj"
  enc_data :: "'f pyobj"

type_synonym ('f, 'a) res = "(exn + 'a) \<times> 'f world"

definition emit :: "event \<Rightarrow> 'f world \<Rightarrow> 'f world" where
  "emit ev w = w\<lparr>trace := trace w @ [ev]\<rparr>"

definition exists :: "'f world \<Rightarrow> path \<Rightarrow> bool" where
  "exists w p = (files w p \<noteq> None)"

fun gets :: "event list \<Rightarrow> url list" where
  "gets [] = []"
| "gets (HttpGet u # evs) = u # gets evs"
| "gets (ev # evs) = gets evs"

fun loads :: "event list \<Rightarrow> path list" where
  "loads [] = []"
| "loads (Load p # evs) = p # loads evs"
| "loads (ev # evs) = loads evs"

fun predictions :: "event list \<Rightarrow> nat" where
  "predictions [] = 0"
| "predictions (Predict # evs) = Suc (predictions evs)"
| "predictions (ev # evs) = predictions evs"

definition bindE :: "exn + 'a \<Rightarrow> ('a \<Rightarrow> exn + 'b) \<Rightarrow> exn + 'b" where
  "bindE r f = (case r of Inl e \<Rightarrow> Inl e | Inr x \<Rightarrow> f x)"

section \<open>Configuration\<close>

definition MODEL_PATH :: path where
  "MODEL_PATH = ''concrete_mix_model_checked.joblib''"

definition ENC_PATH :: path where
  "ENC_PATH = ''mix_encoders_checked.joblib''"

section \<open>\<^verbatim>\<open>download_if_missing\<close> and module initialisation\<close>

text \<open>
  The body of the \<^verbatim>\<open>try\<close> block, in three parts. \<open>fetch\<close> is the request and
  \<^verbatim>\<open>raise_for_status\<close>, which raises for a status from 400 to 599. \<open>save\<close> is
  \<^verbatim>\<open>open(path, "wb")\<close>, which creates the file, and the write. An exception leaves
  the world as it was when it was raised: when the write fails, the file that
  \<^verbatim>\<open>open\<close> created stays, holding what had been written.
\<close>

definition fetch :: "'f env \<Rightarrow> url \<Rightarrow> 'f world \<Rightarrow> ('f, blob) res" where
  "fetch env u w =
     (case requests_get env (length (trace w)) u of
        GetRaises e \<Rightarrow> (Inl e, emit (HttpGet u) w)
      | Response status content \<Rightarrow>
          if 400 \<le> status \<and> status < 600 then (Inl (HTTPError status), emit (HttpGet u) w)
          else (Inr content, emit (HttpGet u) w))"

definition save :: "'f env \<Rightarrow> path \<Rightarrow> blob \<Rightarrow> 'f world \<Rightarrow> ('f, unit) res" where
  "save env p content w =
     (case open_write env (length (trace w)) p content of
        OpenFails e \<Rightarrow> (Inl e, w)
      | WriteFails e part \<Rightarrow> (Inl e, w\<lparr>files := (files w)(p \<mapsto> part)\<rparr>)
      | WriteOk \<Rightarrow> (Inr (), w\<lparr>files := (files w)(p \<mapsto> content)\<rparr>))"

definition try_download :: "'f env \<Rightarrow> url \<Rightarrow> path \<Rightarrow> 'f world \<Rightarrow> ('f, unit) res" where
  "try_download env u p w =
     (case fetch env u w of
        (Inl e, w1) \<Rightarrow> (Inl e, w1)
      | (Inr content, w1) \<Rightarrow>
          (case save env p content w1 of
             (Inl e, w2) \<Rightarrow> (Inl e, w2)
           | (Inr x, w2) \<Rightarrow> (Inr (), emit (Print (Downloaded p)) w2)))"

text \<open>
  \<^verbatim>\<open>not url\<close> holds for \<^verbatim>\<open>None\<close> (the environment variable is not set) and for the
  empty string.
\<close>

definition falsy :: "url option \<Rightarrow> bool" where
  "falsy url = (case url of None \<Rightarrow> True | Some u \<Rightarrow> u = [])"

definition download_if_missing ::
    "'f env \<Rightarrow> url option \<Rightarrow> path \<Rightarrow> 'f world \<Rightarrow> ('f, unit) res" where
  "download_if_missing env url p w =
     (case url of
        None \<Rightarrow> (Inr (), emit (Print (NoUrl p)) w)
      | Some u \<Rightarrow>
          if u = [] then (Inr (), emit (Print (NoUrl p)) w)
          else if \<not> exists w p then
            (case try_download env u p (emit (Print (Downloading p u)) w) of
               (Inr x, w2) \<Rightarrow> (Inr (), w2)
             | (Inl e, w2) \<Rightarrow> (Inr (), emit (Print (DownloadFailed p e)) w2))
          else (Inr (), emit (Print (AlreadyExists p)) w))"

text \<open>
  The statements executed when the module is imported: the two downloads, with the
  values of the environment variables \<^verbatim>\<open>MODEL_URL\<close> and \<^verbatim>\<open>ENC_URL\<close>, then the two
  cache variables set to \<^verbatim>\<open>None\<close>.
\<close>

definition module_init ::
    "'f env \<Rightarrow> url option \<Rightarrow> url option \<Rightarrow> 'f world \<Rightarrow> ('f, unit) res" where
  "module_init env model_url enc_url w =
     (case download_if_missing env model_url MODEL_PATH w of
        (Inl e, w1) \<Rightarrow> (Inl e, w1)
      | (Inr x, w1) \<Rightarrow>
          (case download_if_missing env enc_url ENC_PATH w1 of
             (Inl e, w2) \<Rightarrow> (Inl e, w2)
           | (Inr y, w2) \<Rightarrow> (Inr (), w2\<lparr>model_bundle := PyNone, enc_data := PyNone\<rparr>)))"

section \<open>\<^verbatim>\<open>ensure_model_loaded\<close>\<close>

definition joblib_load :: "'f env \<Rightarrow> path \<Rightarrow> 'f world \<Rightarrow> ('f, 'f pyobj) res" where
  "joblib_load env p w =
     (case files w p of
        None \<Rightarrow> (Inl FileNotFoundError, emit (Load p) w)
      | Some b \<Rightarrow> (unpickle env b, emit (Load p) w))"

definition ensure_model_loaded ::
    "'f env \<Rightarrow> 'f world \<Rightarrow> ('f, 'f pyobj \<times> 'f pyobj) res" where
  "ensure_model_loaded env w =
     (if is_None (model_bundle w) \<or> is_None (enc_data w) then
        (case joblib_load env MODEL_PATH (emit (Print LoadingModels) w) of
           (Inl e, w1) \<Rightarrow> (Inl e, w1)
         | (Inr m, w1) \<Rightarrow>
             (case joblib_load env ENC_PATH (w1\<lparr>model_bundle := m\<rparr>) of
                (Inl e, w2) \<Rightarrow> (Inl e, w2)
              | (Inr d, w2) \<Rightarrow>
                  (let w3 = emit (Print ModelsLoaded) (w2\<lparr>enc_data := d\<rparr>)
                   in (Inr (model_bundle w3, enc_data w3), w3))))
      else (Inr (model_bundle w, enc_data w), w))"

section \<open>The root route\<close>

text \<open>
  A form is the list of submitted fields; \<^verbatim>\<open>request.form.get(key, default)\<close> is the
  first value submitted under the key, or the default, which for the two numeric
  fields is an integer.
\<close>

type_synonym form = "(string \<times> string) list"

datatype pyval = VStr string | VInt int

definition form_get :: "form \<Rightarrow> string \<Rightarrow> pyval \<Rightarrow> pyval" where
  "form_get fm k d = (case map_of fm k of None \<Rightarrow> d | Some s \<Rightarrow> VStr s)"

fun py_float :: "'f env \<Rightarrow> pyval \<Rightarrow> exn + 'f" where
  "py_float env (VStr s) = (case float_of_str env s of None \<Rightarrow> Inl ValueError | Some x \<Rightarrow> Inr x)"
| "py_float env (VInt n) = Inr (float_of_int env n)"

fun cell_of :: "pyval \<Rightarrow> 'f cell" where
  "cell_of (VStr s) = CStr s"
| "cell_of (VInt n) = CInt n"

text \<open>Lines 82 to 96 of the handler: the dictionary literal of the one-row frame.\<close>

definition build_row :: "'f env \<Rightarrow> 'f \<Rightarrow> pyval \<Rightarrow> pyval \<Rightarrow> 'f \<Rightarrow> pyval \<Rightarrow> 'f row" where
  "build_row env fck cement_type agg_type max_size fine_zone =
     [(''Grade_fck'', CFloat fck),
      (''Cement_Type'', cell_of cement_type),
      (''Max_Aggregate_Size_mm'', CFloat max_size),
      (''Aggregate_Type'', cell_of agg_type),
      (''Fine_Agg_Zone'', cell_of fine_zone),
      (''Exposure_Condition'', CStr ''Severe''),
      (''Workability_Slump_mm'', CInt 75),
      (''Admixture_Type'', CStr ''Superplasticizer''),
      (''Admixture_Dosage_%'', CFloat (float_lit env ''1.0'')),
      (''Mineral_Admixture_%'', CFloat (float_lit env ''0.0'')),
      (''w_c_ratio'', CFloat (float_lit env ''0.38'')),
      (''Factor_X'', CFloat (float_lit env ''1.65'')),
      (''Std_Deviation_S'', CFloat (float_lit env ''5.0''))]"

text \<open>Lines 75 to 96: the five values read from the form, in this order, and the row.\<close>

definition input_row :: "'f env \<Rightarrow> form \<Rightarrow> exn + 'f row" where
  "input_row env fm =
     bindE (py_float env (form_get fm ''Grade_fck'' (VInt 30))) (\<lambda>fck.
       let cement_type = form_get fm ''Cement_Type'' (VStr ''OPC43'');
           agg_type = form_get fm ''Aggregate_Type'' (VStr ''Crushed'')
       in bindE (py_float env (form_get fm ''Max_Aggregate_Size_mm'' (VInt 20))) (\<lambda>max_size.
         let fine_zone = form_get fm ''Fine_Agg_Zone'' (VStr ''II'')
         in Inr (build_row env fck cement_type agg_type max_size fine_zone)))"

text \<open>Subscripting a loaded object: \<^verbatim>\<open>None\<close> is not subscriptable, a missing key raises.\<close>

definition getitem :: "'f pyobj \<Rightarrow> ('f artifact \<Rightarrow> 'a option) \<Rightarrow> string \<Rightarrow> exn + 'a" where
  "getitem obj entry k =
     (case obj of
        PyNone \<Rightarrow> Inl TypeError
      | Artifact b \<Rightarrow> (case entry b of None \<Rightarrow> Inl (KeyError k) | Some v \<Rightarrow> Inr v))"

text \<open>
  The data frame operations: reading a column (\<^verbatim>\<open>KeyError\<close> when there is none) and
  assigning to a column, which keeps the position of a column that exists and appends
  a new one.
\<close>

definition get_col :: "'f row \<Rightarrow> string \<Rightarrow> exn + 'f cell" where
  "get_col X c = (case map_of X c of None \<Rightarrow> Inl (KeyError c) | Some v \<Rightarrow> Inr v)"

fun set_col :: "'f row \<Rightarrow> string \<Rightarrow> 'f cell \<Rightarrow> 'f row" where
  "set_col [] c v = [(c, v)]"
| "set_col ((k, x) # X) c v = (if k = c then (k, v) # X else (k, x) # set_col X c v)"

fun astype_str :: "'f env \<Rightarrow> 'f cell \<Rightarrow> string" where
  "astype_str env (CStr s) = s"
| "astype_str env (CInt n) = int_str env n"
| "astype_str env (CFloat x) = float_str env x"

text \<open>
  \<^verbatim>\<open>LabelEncoder.transform\<close> on one label: its position in \<^verbatim>\<open>classes_\<close>, and
  \<^verbatim>\<open>ValueError\<close> for a label that is not there.
\<close>

fun index_of :: "string \<Rightarrow> string list \<Rightarrow> nat option" where
  "index_of s [] = None"
| "index_of s (c # cs) =
     (if s = c then Some 0 else (case index_of s cs of None \<Rightarrow> None | Some i \<Rightarrow> Some (Suc i)))"

definition le_transform :: "string list \<Rightarrow> string \<Rightarrow> exn + int" where
  "le_transform classes s =
     (case index_of s classes of None \<Rightarrow> Inl ValueError | Some i \<Rightarrow> Inr (int i))"

text \<open>The loop over \<^verbatim>\<open>encoders.items()\<close>.\<close>

fun encode_cols :: "'f env \<Rightarrow> (string \<times> string list) list \<Rightarrow> 'f row \<Rightarrow> exn + 'f row" where
  "encode_cols env [] X = Inr X"
| "encode_cols env ((c, le) # encs) X =
     bindE (get_col X c) (\<lambda>v.
       bindE (le_transform le (astype_str env v)) (\<lambda>i.
         encode_cols env encs (set_col X c (CInt i))))"

text \<open>
  \<^verbatim>\<open>X_input[num_cols] = scaler.transform(X_input[num_cols])\<close>: the selection raises
  for a column that is not in the frame, and the assignment for a result that has not
  one value for each selected column.
\<close>

fun select_cols :: "'f row \<Rightarrow> string list \<Rightarrow> exn + 'f cell list" where
  "select_cols X [] = Inr []"
| "select_cols X (c # cs) =
     bindE (get_col X c) (\<lambda>v. bindE (select_cols X cs) (\<lambda>vs. Inr (v # vs)))"

fun assign_cols :: "'f row \<Rightarrow> string list \<Rightarrow> 'f list \<Rightarrow> 'f row" where
  "assign_cols X (c # cs) (y # ys) = assign_cols (set_col X c (CFloat y)) cs ys"
| "assign_cols X cs ys = X"

definition scale_cols ::
    "('f cell list \<Rightarrow> exn + 'f list) \<Rightarrow> string list \<Rightarrow> 'f row \<Rightarrow> exn + 'f row" where
  "scale_cols scaler num_cols X =
     bindE (select_cols X num_cols) (\<lambda>vs.
       bindE (scaler vs) (\<lambda>ys.
         if length ys = length num_cols then Inr (assign_cols X num_cols ys)
         else Inl ValueError))"

text \<open>Lines 69 to 101: everything between the load and the call of the model.\<close>

definition prepare_input ::
    "'f env \<Rightarrow> 'f pyobj \<Rightarrow> 'f pyobj \<Rightarrow> form \<Rightarrow> exn + ('f row \<Rightarrow> exn + 'f list list) \<times> 'f row" where
  "prepare_input env model_info enc_info fm =
     bindE (getitem model_info b_model ''model'') (\<lambda>model.
     bindE (getitem enc_info b_encoders ''encoders'') (\<lambda>encoders.
     bindE (getitem enc_info b_scaler ''scaler'') (\<lambda>scaler.
     bindE (getitem enc_info b_num_cols ''num_cols'') (\<lambda>num_cols.
     bindE (input_row env fm) (\<lambda>X.
     bindE (encode_cols env encoders X) (\<lambda>X1.
     bindE (scale_cols scaler num_cols X1) (\<lambda>X2.
       Inr (model, X2))))))))"

text \<open>Lines 104 to 110: the first row of the prediction and its first four entries.\<close>

definition item :: "'a list \<Rightarrow> nat \<Rightarrow> exn + 'a" where
  "item xs i = (if i < length xs then Inr (xs ! i) else Inl IndexError)"

definition results_of :: "'f env \<Rightarrow> exn + 'f list list \<Rightarrow> exn + (string \<times> 'f) list" where
  "results_of env prediction =
     bindE prediction (\<lambda>Y.
     bindE (item Y 0) (\<lambda>y_pred.
     bindE (item y_pred 0) (\<lambda>y0.
     bindE (item y_pred 1) (\<lambda>y1.
     bindE (item y_pred 2) (\<lambda>y2.
     bindE (item y_pred 3) (\<lambda>y3.
       Inr [(''Cementitious_Content_kgm3'', round2 env y0),
            (''Water_Content_kgm3'', round2 env y1),
            (''Fine_Agg_kgm3'', round2 env y2),
            (''Coarse_Agg_kgm3'', round2 env y3)]))))))"

datatype http_method = GET | POST

text \<open>
  A response is a rendered template with its \<^verbatim>\<open>results\<close> argument (\<open>None\<close> when the
  template is rendered without one), a body with a status, or the status alone that
  the framework answers when no handler is called.
\<close>

datatype 'f response =
    Rendered string "(string \<times> 'f) list option"
  | Body string nat
  | Status nat

definition index :: "'f env \<Rightarrow> http_method \<Rightarrow> form \<Rightarrow> 'f world \<Rightarrow> ('f, 'f response) res" where
  "index env meth fm w =
     (if meth = POST then
        (case ensure_model_loaded env w of
           (Inl e, w1) \<Rightarrow> (Inl e, w1)
         | (Inr (model_info, enc_info), w1) \<Rightarrow>
             (case prepare_input env model_info enc_info fm of
                Inl e \<Rightarrow> (Inl e, w1)
              | Inr (model, X) \<Rightarrow>
                  (case results_of env (model X) of
                     Inl e \<Rightarrow> (Inl e, emit Predict w1)
                   | Inr results \<Rightarrow>
                       (Inr (Rendered ''index.html'' (Some results)), emit Predict w1))))
      else (Inr (Rendered ''index.html'' None), w))"

section \<open>The health route and the routing table\<close>

definition health :: "'f world \<Rightarrow> ('f, 'f response) res" where
  "health w = (Inr (Body ''ok'' 200), w)"

text \<open>
  The two \<^verbatim>\<open>app.route\<close> decorators: the root route accepts GET and POST, the health
  route GET. The framework answers 405 for a method a route does not accept and 404
  for any other path. An \<open>Inl\<close> result is an exception that leaves the handler.
\<close>

record request =
  req_method :: http_method
  req_path :: string
  req_form :: form

definition dispatch :: "'f env \<Rightarrow> request \<Rightarrow> 'f world \<Rightarrow> ('f, 'f response) res" where
  "dispatch env rq w =
     (if req_path rq = ''/'' then index env (req_method rq) (req_form rq) w
      else if req_path rq = ''/health'' then
        (if req_method rq = GET then health w else (Inr (Status 405), w))
      else (Inr (Status 404), w))"

section \<open>Valid inputs\<close>

text \<open>
  What it means for the categorical values of a row to be in the vocabularies of the
  encoders: every column that has an encoder is in the row, and its value, as a
  string, is one of the encoder's classes.
\<close>

definition in_vocabulary :: "'f env \<Rightarrow> (string \<times> string list) list \<Rightarrow> 'f row \<Rightarrow> bool" where
  "in_vocabulary env encs X =
     list_all (\<lambda>(c, classes).
        case map_of X c of None \<Rightarrow> False | Some v \<Rightarrow> astype_str env v \<in> set classes) encs"

text \<open>The row of a form in which none of the five fields is present.\<close>

definition default_row :: "'f env \<Rightarrow> 'f row" where
  "default_row env =
     build_row env (float_of_int env 30) (VStr ''OPC43'') (VStr ''Crushed'')
       (float_of_int env 20) (VStr ''II'')"

text \<open>
  The requests one call is expected to make: one, to the given URL, when a URL is
  given and no file is at the path, and none otherwise.
\<close>

definition attempts :: "url option \<Rightarrow> bool \<Rightarrow> url list" where
  "attempts url present = (case url of None \<Rightarrow> [] | Some u \<Rightarrow> if u = [] \<or> present then [] else [u])"

section \<open>Sample inputs\<close>

text \<open>
  A concrete instance of the parameters, on which the theorems below are exercised.
  Floats are integers counting hundredths, so that rounding to two decimals changes
  nothing. The file contents \<open>[1]\<close> and \<open>[2]\<close> deserialise to a model artifact and an
  encoder artifact, \<open>[3]\<close> to the artifact of a model that predicts three values,
  \<open>[0]\<close> to \<^verbatim>\<open>None\<close>, and anything else is not a pickle.
\<close>

definition sample_model :: "int artifact" where
  "sample_model =
     \<lparr>b_model = Some (\<lambda>X. Inr [[41250, 16500, 70025, 110075]]),
      b_encoders = None, b_scaler = None, b_num_cols = None\<rparr>"

definition short_model :: "int artifact" where
  "short_model =
     \<lparr>b_model = Some (\<lambda>X. Inr [[41250, 16500, 70025]]),
      b_encoders = None, b_scaler = None, b_num_cols = None\<rparr>"

definition sample_vocab :: "(string \<times> string list) list" where
  "sample_vocab =
     [(''Cement_Type'', [''OPC43'', ''OPC53'']),
      (''Aggregate_Type'', [''Crushed'', ''Rounded'']),
      (''Fine_Agg_Zone'', [''I'', ''II'', ''III'']),
      (''Exposure_Condition'', [''Mild'', ''Severe'']),
      (''Admixture_Type'', [''Superplasticizer''])]"

definition sample_encoders :: "int artifact" where
  "sample_encoders =
     \<lparr>b_model = None,
      b_encoders = Some sample_vocab,
      b_scaler = Some (\<lambda>vs. Inr (map (\<lambda>v. 0) vs)),
      b_num_cols = Some [''Grade_fck'', ''Max_Aggregate_Size_mm'', ''Workability_Slump_mm'']\<rparr>"

definition sample_env :: "int env" where
  "sample_env =
     \<lparr>requests_get = (\<lambda>t u. if u = ''http://m'' then Response 200 [1]
                             else GetRaises RequestException),
      open_write = (\<lambda>t p c. WriteOk),
      unpickle = (\<lambda>b. if b = [1] then Inr (Artifact sample_model)
                       else if b = [2] then Inr (Artifact sample_encoders)
                       else if b = [3] then Inr (Artifact short_model)
                       else if b = [0] then Inr PyNone
                       else Inl UnpicklingError),
      float_of_str = (\<lambda>s. if s = ''25'' then Some 2500
                           else if s = ''10'' then Some 1000 else None),
      float_of_int = (\<lambda>n. 100 * n),
      float_lit = (\<lambda>s. if s = ''1.0'' then 100 else if s = ''0.38'' then 38
                        else if s = ''1.65'' then 165 else if s = ''5.0'' then 500 else 0),
      int_str = (\<lambda>n. []),
      float_str = (\<lambda>x. []),
      round2 = (\<lambda>x. x)\<rparr>"

text \<open>A disk that is full: the file can be opened, and the write fails at once.\<close>

definition disk_full_env :: "int env" where
  "disk_full_env = sample_env\<lparr>open_write := (\<lambda>t p c. WriteFails OSError [])\<rparr>"

text \<open>A directory that is not writable: the file cannot be opened.\<close>

definition read_only_env :: "int env" where
  "read_only_env = sample_env\<lparr>open_write := (\<lambda>t p c. OpenFails OSError)\<rparr>"

definition world0 :: "(path \<rightharpoonup> blob) \<Rightarrow> int world" where
  "world0 fs = \<lparr>files = fs, trace = [], model_bundle = PyNone, enc_data = PyNone\<rparr>"

definition both_files :: "path \<rightharpoonup> blob" where
  "both_files = [MODEL_PATH \<mapsto> [1], ENC_PATH \<mapsto> [2]]"

definition valid_form :: form where
  "valid_form =
     [(''Grade_fck'', ''25''), (''Cement_Type'', ''OPC53''), (''Aggregate_Type'', ''Rounded''),
      (''Max_Aggregate_Size_mm'', ''10''), (''Fine_Agg_Zone'', ''III'')]"

text \<open>
  The world after the first successful load from the two sample files.
\<close>

definition loaded_world :: "int world" where
  "loaded_world =
     \<lparr>files = both_files,
      trace = [Print LoadingModels, Load MODEL_PATH, Load ENC_PATH, Print ModelsLoaded],
      model_bundle = Artifact sample_model, enc_data = Artifact sample_encoders\<rparr>"

text \<open>
  The world after a module initialisation in which the model was downloaded and the
  request for the encoders raised.
\<close>

definition after_failed_download :: "int world" where
  "after_failed_download =
     snd (module_init sample_env (Some ''http://m'') (Some ''http://e'') (world0 Map.empty))"

text \<open>
  The row that the handler assembles from the sample form.
\<close>

definition valid_row :: "int row" where
  "valid_row =
     [(''Grade_fck'', CFloat 2500), (''Cement_Type'', CStr ''OPC53''),
      (''Max_Aggregate_Size_mm'', CFloat 1000), (''Aggregate_Type'', CStr ''Rounded''),
      (''Fine_Agg_Zone'', CStr ''III''), (''Exposure_Condition'', CStr ''Severe''),
      (''Workability_Slump_mm'', CInt 75), (''Admixture_Type'', CStr ''Superplasticizer''),
      (''Admixture_Dosage_%'', CFloat 100), (''Mineral_Admixture_%'', CFloat 0),
      (''w_c_ratio'', CFloat 38), (''Factor_X'', CFloat 165), (''Std_Deviation_S'', CFloat 500)]"

section \<open>Effects of the downloader\<close>

lemma gets_append [simp]: "gets (xs @ ys) = gets xs @ gets ys"
  by (induction xs rule: gets.induct) auto

lemma files_emit [simp]: "files (emit ev w) = files w"
  by (simp add: emit_def)

lemma exists_emit [simp]: "exists (emit ev w) p = exists w p"
  by (simp add: exists_def)

lemma trace_emit [simp]: "trace (emit ev w) = trace w @ [ev]"
  by (simp add: emit_def)

lemma fetch_trace: "trace (snd (fetch env u w)) = trace w @ [HttpGet u]"
  by (simp add: fetch_def split: http_outcome.splits)

lemma fetch_files: "files (snd (fetch env u w)) = files w"
  by (simp add: fetch_def split: http_outcome.splits)

lemma save_trace: "trace (snd (save env p c w)) = trace w"
  by (simp add: save_def split: write_outcome.splits)

lemma save_files_other: "q \<noteq> p \<Longrightarrow> files (snd (save env p c w)) q = files w q"
  by (simp add: save_def split: write_outcome.splits)

lemma try_download_gets: "gets (trace (snd (try_download env u p w))) = gets (trace w) @ [u]"
proof -
  obtain r w1 where f: "fetch env u w = (r, w1)" by (cases "fetch env u w")
  then have t1: "trace w1 = trace w @ [HttpGet u]" using fetch_trace [of env u w] by simp
  show ?thesis
  proof (cases r)
    case (Inl e)
    with f t1 show ?thesis by (simp add: try_download_def gets_append)
  next
    case (Inr c)
    obtain r2 w2 where s: "save env p c w1 = (r2, w2)" by (cases "save env p c w1")
    then have "trace w2 = trace w1" using save_trace [of env p c w1] by simp
    with f t1 Inr s show ?thesis
      by (cases r2) (simp_all add: try_download_def gets_append)
  qed
qed

lemma try_download_files_other:
  "q \<noteq> p \<Longrightarrow> files (snd (try_download env u p w)) q = files w q"
proof -
  assume qp: "q \<noteq> p"
  obtain r w1 where f: "fetch env u w = (r, w1)" by (cases "fetch env u w")
  then have f1: "files w1 = files w" using fetch_files [of env u w] by simp
  show ?thesis
  proof (cases r)
    case (Inl e)
    with f f1 show ?thesis by (simp add: try_download_def)
  next
    case (Inr c)
    obtain r2 w2 where s: "save env p c w1 = (r2, w2)" by (cases "save env p c w1")
    then have "files w2 q = files w1 q" using save_files_other [OF qp, of env c w1] by simp
    with f f1 Inr s show ?thesis
      by (cases r2) (simp_all add: try_download_def)
  qed
qed

lemma download_returns: "fst (download_if_missing env url p w) = Inr ()"
  by (simp add: download_if_missing_def split: option.splits prod.splits sum.splits)

lemma download_present:
  "exists w p \<Longrightarrow> snd (download_if_missing env url p w)
     = emit (Print (if falsy url then NoUrl p else AlreadyExists p)) w"
  by (simp add: download_if_missing_def falsy_def split: option.splits)

lemma download_no_url:
  "falsy url \<Longrightarrow> snd (download_if_missing env url p w) = emit (Print (NoUrl p)) w"
  by (simp add: download_if_missing_def falsy_def split: option.splits)

lemma download_attempt:
  "u \<noteq> [] \<Longrightarrow> \<not> exists w p \<Longrightarrow>
   snd (download_if_missing env (Some u) p w) =
     (case try_download env u p (emit (Print (Downloading p u)) w) of
        (Inr x, w2) \<Rightarrow> w2
      | (Inl e, w2) \<Rightarrow> emit (Print (DownloadFailed p e)) w2)"
  by (simp add: download_if_missing_def split: prod.splits sum.splits)

lemma download_gets:
  "gets (trace (snd (download_if_missing env url p w))) = gets (trace w) @ attempts url (exists w p)"
proof (cases "falsy url \<or> exists w p")
  case True
  then show ?thesis
    by (auto simp: download_no_url download_present attempts_def falsy_def gets_append split: option.splits)
next
  case False
  then obtain u where u: "url = Some u" "u \<noteq> []" "\<not> exists w p"
    by (auto simp: falsy_def split: option.splits)
  obtain r w2 where t: "try_download env u p (emit (Print (Downloading p u)) w) = (r, w2)"
    by (cases "try_download env u p (emit (Print (Downloading p u)) w)")
  then have "gets (trace w2) = gets (trace w) @ [u]"
    using try_download_gets [of env u p "emit (Print (Downloading p u)) w"]
    by (simp add: gets_append)
  with u t show ?thesis
    by (cases r) (simp_all add: download_attempt attempts_def)
qed

lemma download_files_other:
  "q \<noteq> p \<Longrightarrow> files (snd (download_if_missing env url p w)) q = files w q"
proof (cases "falsy url \<or> exists w p")
  case True
  then show ?thesis
    by (auto simp: download_no_url download_present)
next
  case False
  assume qp: "q \<noteq> p"
  from False obtain u where u: "url = Some u" "u \<noteq> []" "\<not> exists w p"
    by (auto simp: falsy_def split: option.splits)
  obtain r w2 where t: "try_download env u p (emit (Print (Downloading p u)) w) = (r, w2)"
    by (cases "try_download env u p (emit (Print (Downloading p u)) w)")
  then have "files w2 q = files w q"
    using try_download_files_other [OF qp, of env u "emit (Print (Downloading p u)) w"] by simp
  with u t show ?thesis
    by (cases r) (simp_all add: download_attempt)
qed

lemma paths_differ: "MODEL_PATH \<noteq> ENC_PATH"
  by (simp add: MODEL_PATH_def ENC_PATH_def)

lemma module_init_snd:
  "trace (snd (module_init env mu eu w)) =
     trace (snd (download_if_missing env eu ENC_PATH (snd (download_if_missing env mu MODEL_PATH w))))"
proof -
  obtain r1 w1 where d1: "download_if_missing env mu MODEL_PATH w = (r1, w1)"
    by (cases "download_if_missing env mu MODEL_PATH w")
  obtain r2 w2 where d2: "download_if_missing env eu ENC_PATH w1 = (r2, w2)"
    by (cases "download_if_missing env eu ENC_PATH w1")
  from d1 have r1: "r1 = Inr ()" using download_returns [of env mu MODEL_PATH w] by simp
  from d2 have r2: "r2 = Inr ()" using download_returns [of env eu ENC_PATH w1] by simp
  show ?thesis by (simp add: module_init_def d1 d2 r1 r2)
qed


text \<open>
  Claim C8. A call makes at most one GET request: the requests of a call are the one
  request to its URL when a URL is given and the file is absent, whatever the outcome
  of that request or of the write is, and none otherwise. Module initialisation makes
  the requests of its two calls and no other: at most one for the model and at most
  one for the encoders, so no failed attempt is repeated.
\<close>

theorem single_attempt:
  "gets (trace (snd (download_if_missing env url p w))) = gets (trace w) @ attempts url (exists w p)
   \<and> length (attempts url (exists w p)) \<le> 1
   \<and> gets (trace (snd (module_init env mu eu w)))
       = gets (trace w) @ attempts mu (exists w MODEL_PATH) @ attempts eu (exists w ENC_PATH)"
proof -
  let ?w1 = "snd (download_if_missing env mu MODEL_PATH w)"
  have "files ?w1 ENC_PATH = files w ENC_PATH"
    using paths_differ by (simp add: download_files_other)
  then have "exists ?w1 ENC_PATH = exists w ENC_PATH" by (simp add: exists_def)
  then show ?thesis
    by (simp add: module_init_snd download_gets) (simp add: attempts_def split: option.splits)
qed


text \<open>
  The theorem on a full disk with an unreachable encoder URL: both downloads fail and
  each URL is requested once; with both files present nothing is requested.
\<close>

theorem single_attempt_witness:
  "gets (trace (snd (download_if_missing disk_full_env (Some ''http://m'') MODEL_PATH
                       (world0 Map.empty)))) = [''http://m'']
   \<and> gets (trace (snd (module_init disk_full_env (Some ''http://m'') (Some ''http://e'')
                          (world0 Map.empty)))) = [''http://m'', ''http://e'']
   \<and> gets (trace (snd (module_init disk_full_env (Some ''http://m'') (Some ''http://e'')
                          (world0 both_files)))) = []"
  using single_attempt [of disk_full_env "Some ''http://m''" MODEL_PATH "world0 Map.empty"
      "Some ''http://m''" "Some ''http://e''"]
    single_attempt [of disk_full_env "Some ''http://m''" MODEL_PATH "world0 both_files"
      "Some ''http://m''" "Some ''http://e''"]
  by (simp add: attempts_def exists_def world0_def both_files_def MODEL_PATH_def ENC_PATH_def)

text \<open>The definitions that a sample input unfolds to.\<close>

lemmas sample_defs = sample_env_def disk_full_env_def read_only_env_def world0_def both_files_def
  sample_model_def sample_encoders_def sample_vocab_def MODEL_PATH_def ENC_PATH_def

text \<open>
  Claim C4. When a file exists at the path, the call makes no request and leaves the
  file system as it was; and a call that makes a request, or that changes the file
  system, was given a URL and found no file at the path.
\<close>

theorem download_skipped_when_present:
  "(exists w p \<longrightarrow>
      files (snd (download_if_missing env url p w)) = files w
      \<and> gets (trace (snd (download_if_missing env url p w))) = gets (trace w))
   \<and> (gets (trace (snd (download_if_missing env url p w))) \<noteq> gets (trace w) \<longrightarrow>
        \<not> exists w p \<and> \<not> falsy url)
   \<and> (files (snd (download_if_missing env url p w)) \<noteq> files w \<longrightarrow>
        \<not> exists w p \<and> \<not> falsy url)"
proof -
  have present: "exists w p \<longrightarrow> files (snd (download_if_missing env url p w)) = files w"
    by (simp add: download_present)
  have no_url: "falsy url \<longrightarrow> files (snd (download_if_missing env url p w)) = files w"
    by (simp add: download_no_url)
  have "gets (trace (snd (download_if_missing env url p w))) \<noteq> gets (trace w) \<longrightarrow>
        \<not> exists w p \<and> \<not> falsy url"
    by (auto simp: download_gets attempts_def falsy_def split: option.splits)
  with present no_url show ?thesis by blast
qed

text \<open>
  The theorem at two calls for the model file: one with the file present, one with
  the file absent and a URL given.
\<close>

theorem download_skipped_when_present_witness:
  "exists (world0 both_files) MODEL_PATH
   \<and> files (snd (download_if_missing sample_env (Some ''http://m'') MODEL_PATH (world0 both_files)))
       = both_files
   \<and> gets (trace (snd (download_if_missing sample_env (Some ''http://m'') MODEL_PATH
                          (world0 both_files)))) = []
   \<and> gets (trace (snd (download_if_missing sample_env (Some ''http://m'') MODEL_PATH
                          (world0 Map.empty)))) = [''http://m'']
   \<and> \<not> exists (world0 Map.empty) MODEL_PATH \<and> \<not> falsy (Some ''http://m'')"
proof -
  have a: "exists (world0 both_files) MODEL_PATH"
    by (simp add: exists_def sample_defs)
  have b: "gets (trace (snd (download_if_missing sample_env (Some ''http://m'') MODEL_PATH
                          (world0 Map.empty)))) = [''http://m'']"
    by (simp add: download_if_missing_def try_download_def fetch_def save_def exists_def
        emit_def sample_defs)
  show ?thesis
    using a b
      download_skipped_when_present [of "world0 both_files" MODEL_PATH sample_env "Some ''http://m''"]
      download_skipped_when_present [of "world0 Map.empty" MODEL_PATH sample_env "Some ''http://m''"]
    by (simp add: world0_def)
qed




section \<open>The lazy cache\<close>

lemma joblib_load_snd: "snd (joblib_load env p w) = emit (Load p) w"
  by (simp add: joblib_load_def split: option.splits)

lemma ensure_cached:
  "\<not> is_None (model_bundle w) \<Longrightarrow> \<not> is_None (enc_data w) \<Longrightarrow>
   ensure_model_loaded env w = (Inr (model_bundle w, enc_data w), w)"
  by (simp add: ensure_model_loaded_def)

lemma ensure_result_cached:
  assumes "ensure_model_loaded env w = (Inr (m, d), w')"
  shows "model_bundle w' = m \<and> enc_data w' = d"
proof (cases "is_None (model_bundle w) \<or> is_None (enc_data w)")
  case False
  with assms show ?thesis by (auto simp: ensure_model_loaded_def)
next
  case True
  let ?w0 = "emit (Print LoadingModels) w"
  obtain r1 w1 where l1: "joblib_load env MODEL_PATH ?w0 = (r1, w1)"
    by (cases "joblib_load env MODEL_PATH ?w0")
  show ?thesis
  proof (cases r1)
    case (Inl e)
    with assms True l1 show ?thesis by (simp add: ensure_model_loaded_def)
  next
    case (Inr m1)
    obtain r2 w2 where l2: "joblib_load env ENC_PATH (w1\<lparr>model_bundle := m1\<rparr>) = (r2, w2)"
      by (cases "joblib_load env ENC_PATH (w1\<lparr>model_bundle := m1\<rparr>)")
    show ?thesis
    proof (cases r2)
      case (Inl e)
      with assms True l1 l2 Inr show ?thesis by (simp add: ensure_model_loaded_def)
    next
      case (Inr d1)
      with assms True l1 l2 \<open>r1 = Inr m1\<close> show ?thesis
        by (auto simp: ensure_model_loaded_def Let_def emit_def)
    qed
  qed
qed

lemma loads_append [simp]: "loads (xs @ ys) = loads xs @ loads ys"
  by (induction xs rule: loads.induct) auto

lemma joblib_load_fst:
  "fst (joblib_load env p w) =
     (case files w p of None \<Rightarrow> Inl FileNotFoundError | Some b \<Rightarrow> unpickle env b)"
  by (simp add: joblib_load_def split: option.splits)

lemma joblib_load_eq:
  "joblib_load env p w = (fst (joblib_load env p w), emit (Load p) w)"
  by (simp add: joblib_load_def split: option.splits)

lemma joblib_load_frame:
  "files w' = files w \<Longrightarrow> fst (joblib_load env p w') = fst (joblib_load env p w)"
  by (simp add: joblib_load_fst)

lemma ensure_miss_model_fails:
  assumes "is_None (model_bundle w) \<or> is_None (enc_data w)"
    and "fst (joblib_load env MODEL_PATH w) = Inl e"
  shows "ensure_model_loaded env w =
     (Inl e, emit (Load MODEL_PATH) (emit (Print LoadingModels) w))"
proof -
  let ?w0 = "emit (Print LoadingModels) w"
  have "fst (joblib_load env MODEL_PATH ?w0) = Inl e"
    using assms(2) joblib_load_frame [of ?w0 w env MODEL_PATH] by simp
  then have "joblib_load env MODEL_PATH ?w0 = (Inl e, emit (Load MODEL_PATH) ?w0)"
    using joblib_load_eq [of env MODEL_PATH ?w0] by simp
  with assms(1) show ?thesis by (simp add: ensure_model_loaded_def)
qed

lemma ensure_miss_enc_fails:
  assumes "is_None (model_bundle w) \<or> is_None (enc_data w)"
    and "fst (joblib_load env MODEL_PATH w) = Inr m"
    and "fst (joblib_load env ENC_PATH w) = Inl e"
  shows "ensure_model_loaded env w =
     (Inl e, emit (Load ENC_PATH)
               ((emit (Load MODEL_PATH) (emit (Print LoadingModels) w))\<lparr>model_bundle := m\<rparr>))"
proof -
  let ?w0 = "emit (Print LoadingModels) w"
  let ?w1 = "(emit (Load MODEL_PATH) ?w0)\<lparr>model_bundle := m\<rparr>"
  have "fst (joblib_load env MODEL_PATH ?w0) = Inr m"
    using assms(2) joblib_load_frame [of ?w0 w env MODEL_PATH] by simp
  then have a: "joblib_load env MODEL_PATH ?w0 = (Inr m, emit (Load MODEL_PATH) ?w0)"
    using joblib_load_eq [of env MODEL_PATH ?w0] by simp
  have "fst (joblib_load env ENC_PATH ?w1) = Inl e"
    using assms(3) joblib_load_frame [of ?w1 w env ENC_PATH] by simp
  then have b: "joblib_load env ENC_PATH ?w1 = (Inl e, emit (Load ENC_PATH) ?w1)"
    using joblib_load_eq [of env ENC_PATH ?w1] by simp
  from assms(1) a b show ?thesis by (simp add: ensure_model_loaded_def)
qed

lemma ensure_miss_both_load:
  assumes "is_None (model_bundle w) \<or> is_None (enc_data w)"
    and "fst (joblib_load env MODEL_PATH w) = Inr m"
    and "fst (joblib_load env ENC_PATH w) = Inr d"
  shows "ensure_model_loaded env w =
     (Inr (m, d),
      emit (Print ModelsLoaded)
        ((emit (Load ENC_PATH)
           ((emit (Load MODEL_PATH) (emit (Print LoadingModels) w))\<lparr>model_bundle := m\<rparr>))
         \<lparr>enc_data := d\<rparr>))"
proof -
  let ?w0 = "emit (Print LoadingModels) w"
  let ?w1 = "(emit (Load MODEL_PATH) ?w0)\<lparr>model_bundle := m\<rparr>"
  have "fst (joblib_load env MODEL_PATH ?w0) = Inr m"
    using assms(2) joblib_load_frame [of ?w0 w env MODEL_PATH] by simp
  then have a: "joblib_load env MODEL_PATH ?w0 = (Inr m, emit (Load MODEL_PATH) ?w0)"
    using joblib_load_eq [of env MODEL_PATH ?w0] by simp
  have "fst (joblib_load env ENC_PATH ?w1) = Inr d"
    using assms(3) joblib_load_frame [of ?w1 w env ENC_PATH] by simp
  then have b: "joblib_load env ENC_PATH ?w1 = (Inr d, emit (Load ENC_PATH) ?w1)"
    using joblib_load_eq [of env ENC_PATH ?w1] by simp
  from assms(1) a b show ?thesis by (simp add: ensure_model_loaded_def Let_def emit_def)
qed

lemma ensure_files: "files (snd (ensure_model_loaded env w)) = files w"
proof (cases "is_None (model_bundle w) \<or> is_None (enc_data w)")
  case False
  then show ?thesis by (simp add: ensure_model_loaded_def)
next
  case True
  show ?thesis
  proof (cases "fst (joblib_load env MODEL_PATH w)")
    case (Inl e)
    then show ?thesis using ensure_miss_model_fails [OF True] by simp
  next
    case (Inr m)
    show ?thesis
    proof (cases "fst (joblib_load env ENC_PATH w)")
      case (Inl e)
      then show ?thesis using ensure_miss_enc_fails [OF True Inr] by simp
    next
      case (Inr d)
      then show ?thesis
        using ensure_miss_both_load [OF True \<open>fst (joblib_load env MODEL_PATH w) = Inr m\<close>]
        by simp
    qed
  qed
qed

text \<open>
  Claim C3, amended. When a call returns a pair of objects neither of which is
  \<^verbatim>\<open>None\<close>, the two cache variables hold that pair, and a later call, in that world
  or in any world whose cache variables hold the pair, whatever the environment and
  the file system are by then, returns the same pair and leaves the world as it is:
  nothing is loaded and nothing is printed. In general a call made while neither
  variable is \<^verbatim>\<open>None\<close> returns the two variables and changes nothing. A call made
  while either variable is \<^verbatim>\<open>None\<close> loads the model file; when that load raises, the
  call raises its exception, the encoder file is not loaded and both variables stay as
  they were. When the model loads, it is stored and the encoder file is loaded; when
  that load raises, the call raises its exception and the encoder variable stays as
  it was, and otherwise the encoder object is stored too and the pair of loaded
  objects is returned. No call changes the file system.
\<close>

theorem lazy_cache:
  "(ensure_model_loaded env w = (Inr (m, d), w') \<and> \<not> is_None m \<and> \<not> is_None d \<longrightarrow>
      model_bundle w' = m \<and> enc_data w' = d
      \<and> ensure_model_loaded env' w' = (Inr (m, d), w')
      \<and> (\<forall>w''. model_bundle w'' = m \<and> enc_data w'' = d \<longrightarrow>
            ensure_model_loaded env' w'' = (Inr (m, d), w'')))
   \<and> (\<not> is_None (model_bundle w) \<and> \<not> is_None (enc_data w) \<longrightarrow>
        ensure_model_loaded env w = (Inr (model_bundle w, enc_data w), w))
   \<and> ((is_None (model_bundle w) \<or> is_None (enc_data w))
        \<and> fst (joblib_load env MODEL_PATH w) = Inl e \<longrightarrow>
        fst (ensure_model_loaded env w) = Inl e
        \<and> loads (trace (snd (ensure_model_loaded env w))) = loads (trace w) @ [MODEL_PATH]
        \<and> model_bundle (snd (ensure_model_loaded env w)) = model_bundle w
        \<and> enc_data (snd (ensure_model_loaded env w)) = enc_data w)
   \<and> ((is_None (model_bundle w) \<or> is_None (enc_data w))
        \<and> fst (joblib_load env MODEL_PATH w) = Inr m1
        \<and> fst (joblib_load env ENC_PATH w) = Inl e \<longrightarrow>
        fst (ensure_model_loaded env w) = Inl e
        \<and> loads (trace (snd (ensure_model_loaded env w)))
            = loads (trace w) @ [MODEL_PATH, ENC_PATH]
        \<and> model_bundle (snd (ensure_model_loaded env w)) = m1
        \<and> enc_data (snd (ensure_model_loaded env w)) = enc_data w)
   \<and> ((is_None (model_bundle w) \<or> is_None (enc_data w))
        \<and> fst (joblib_load env MODEL_PATH w) = Inr m1
        \<and> fst (joblib_load env ENC_PATH w) = Inr d1 \<longrightarrow>
        fst (ensure_model_loaded env w) = Inr (m1, d1)
        \<and> loads (trace (snd (ensure_model_loaded env w)))
            = loads (trace w) @ [MODEL_PATH, ENC_PATH]
        \<and> model_bundle (snd (ensure_model_loaded env w)) = m1
        \<and> enc_data (snd (ensure_model_loaded env w)) = d1)
   \<and> files (snd (ensure_model_loaded env w)) = files w"
proof -
  have hit: "ensure_model_loaded env w = (Inr (m, d), w') \<and> \<not> is_None m \<and> \<not> is_None d \<longrightarrow>
      model_bundle w' = m \<and> enc_data w' = d
      \<and> ensure_model_loaded env' w' = (Inr (m, d), w')
      \<and> (\<forall>w''. model_bundle w'' = m \<and> enc_data w'' = d \<longrightarrow>
            ensure_model_loaded env' w'' = (Inr (m, d), w''))"
  proof (intro impI, elim conjE)
    assume a: "ensure_model_loaded env w = (Inr (m, d), w')" "\<not> is_None m" "\<not> is_None d"
    have c: "model_bundle w' = m \<and> enc_data w' = d"
      using a(1) by (rule ensure_result_cached)
    have "\<And>w''. model_bundle w'' = m \<and> enc_data w'' = d \<Longrightarrow>
        ensure_model_loaded env' w'' = (Inr (m, d), w'')"
      using a(2,3) ensure_cached by metis
    with c show "model_bundle w' = m \<and> enc_data w' = d
      \<and> ensure_model_loaded env' w' = (Inr (m, d), w')
      \<and> (\<forall>w''. model_bundle w'' = m \<and> enc_data w'' = d \<longrightarrow>
            ensure_model_loaded env' w'' = (Inr (m, d), w''))"
      by blast
  qed
  have cached: "\<not> is_None (model_bundle w) \<and> \<not> is_None (enc_data w) \<longrightarrow>
        ensure_model_loaded env w = (Inr (model_bundle w, enc_data w), w)"
    by (simp add: ensure_cached)
  have miss1: "(is_None (model_bundle w) \<or> is_None (enc_data w))
        \<and> fst (joblib_load env MODEL_PATH w) = Inl e \<longrightarrow>
        fst (ensure_model_loaded env w) = Inl e
        \<and> loads (trace (snd (ensure_model_loaded env w))) = loads (trace w) @ [MODEL_PATH]
        \<and> model_bundle (snd (ensure_model_loaded env w)) = model_bundle w
        \<and> enc_data (snd (ensure_model_loaded env w)) = enc_data w"
    using ensure_miss_model_fails [of w env e] by (auto simp: emit_def)
  have miss2: "(is_None (model_bundle w) \<or> is_None (enc_data w))
        \<and> fst (joblib_load env MODEL_PATH w) = Inr m1
        \<and> fst (joblib_load env ENC_PATH w) = Inl e \<longrightarrow>
        fst (ensure_model_loaded env w) = Inl e
        \<and> loads (trace (snd (ensure_model_loaded env w)))
            = loads (trace w) @ [MODEL_PATH, ENC_PATH]
        \<and> model_bundle (snd (ensure_model_loaded env w)) = m1
        \<and> enc_data (snd (ensure_model_loaded env w)) = enc_data w"
    using ensure_miss_enc_fails [of w env m1 e] by (auto simp: emit_def)
  have miss3: "(is_None (model_bundle w) \<or> is_None (enc_data w))
        \<and> fst (joblib_load env MODEL_PATH w) = Inr m1
        \<and> fst (joblib_load env ENC_PATH w) = Inr d1 \<longrightarrow>
        fst (ensure_model_loaded env w) = Inr (m1, d1)
        \<and> loads (trace (snd (ensure_model_loaded env w)))
            = loads (trace w) @ [MODEL_PATH, ENC_PATH]
        \<and> model_bundle (snd (ensure_model_loaded env w)) = m1
        \<and> enc_data (snd (ensure_model_loaded env w)) = d1"
    using ensure_miss_both_load [of w env m1 d1] by (auto simp: emit_def)
  from hit cached miss1 miss2 miss3 ensure_files [of env w] show ?thesis
    by blast
qed

lemma sample_load:
  "ensure_model_loaded sample_env (world0 both_files)
     = (Inr (Artifact sample_model, Artifact sample_encoders), loaded_world)"
  by (simp add: ensure_model_loaded_def joblib_load_def emit_def loaded_world_def
      sample_env_def world0_def both_files_def MODEL_PATH_def ENC_PATH_def)

text \<open>
  The theorem at the sample files. The first call loads both files, and a second
  call returns the same pair without a load, also after the files have been removed.
  With no file the model load raises and the encoders are not loaded. With the
  encoder file absent the model is loaded and stored and the call raises. With the
  model variable reset to \<^verbatim>\<open>None\<close> and the encoder variable filled, both files are
  loaded again.
\<close>

theorem lazy_cache_witness:
  "ensure_model_loaded sample_env (world0 both_files)
     = (Inr (Artifact sample_model, Artifact sample_encoders), loaded_world)
   \<and> model_bundle loaded_world = Artifact sample_model
   \<and> enc_data loaded_world = Artifact sample_encoders
   \<and> ensure_model_loaded disk_full_env loaded_world
       = (Inr (Artifact sample_model, Artifact sample_encoders), loaded_world)
   \<and> ensure_model_loaded disk_full_env (loaded_world\<lparr>files := Map.empty\<rparr>)
       = (Inr (Artifact sample_model, Artifact sample_encoders), loaded_world\<lparr>files := Map.empty\<rparr>)
   \<and> fst (ensure_model_loaded sample_env (world0 Map.empty)) = Inl FileNotFoundError
   \<and> loads (trace (snd (ensure_model_loaded sample_env (world0 Map.empty)))) = [MODEL_PATH]
   \<and> fst (ensure_model_loaded sample_env (world0 [MODEL_PATH \<mapsto> [1]])) = Inl FileNotFoundError
   \<and> loads (trace (snd (ensure_model_loaded sample_env (world0 [MODEL_PATH \<mapsto> [1]]))))
       = [MODEL_PATH, ENC_PATH]
   \<and> model_bundle (snd (ensure_model_loaded sample_env (world0 [MODEL_PATH \<mapsto> [1]])))
       = Artifact sample_model
   \<and> enc_data (snd (ensure_model_loaded sample_env (world0 [MODEL_PATH \<mapsto> [1]]))) = PyNone
   \<and> fst (ensure_model_loaded sample_env (loaded_world\<lparr>model_bundle := PyNone\<rparr>))
       = Inr (Artifact sample_model, Artifact sample_encoders)
   \<and> loads (trace (snd (ensure_model_loaded sample_env (loaded_world\<lparr>model_bundle := PyNone\<rparr>))))
       = [MODEL_PATH, ENC_PATH, MODEL_PATH, ENC_PATH]"
proof -
  let ?M = "Artifact sample_model :: int pyobj"
  let ?D = "Artifact sample_encoders :: int pyobj"
  let ?gone = "loaded_world\<lparr>files := Map.empty\<rparr>"
  let ?half = "world0 [MODEL_PATH \<mapsto> [1]] :: int world"
  let ?lost = "loaded_world\<lparr>model_bundle := PyNone\<rparr>"
  have nn: "\<not> is_None ?M" "\<not> is_None ?D"
    by simp_all
  have gone: "model_bundle ?gone = ?M \<and> enc_data ?gone = ?D"
    by (simp add: loaded_world_def)
  have hit: "model_bundle loaded_world = ?M \<and> enc_data loaded_world = ?D
      \<and> ensure_model_loaded disk_full_env loaded_world = (Inr (?M, ?D), loaded_world)
      \<and> ensure_model_loaded disk_full_env ?gone = (Inr (?M, ?D), ?gone)"
    using nn gone sample_load
      lazy_cache [where env = sample_env and w = "world0 both_files"
        and m = ?M and d = ?D and w' = loaded_world and env' = disk_full_env]
    by blast
  have none: "is_None (model_bundle (world0 Map.empty :: int world))
        \<or> is_None (enc_data (world0 Map.empty :: int world))"
    "fst (joblib_load sample_env MODEL_PATH (world0 Map.empty)) = Inl FileNotFoundError"
    by (simp_all add: world0_def joblib_load_def)
  have t0: "loads (trace (world0 Map.empty :: int world)) = []"
    by (simp add: world0_def)
  have "fst (ensure_model_loaded sample_env (world0 Map.empty)) = Inl FileNotFoundError
      \<and> loads (trace (snd (ensure_model_loaded sample_env (world0 Map.empty))))
          = loads (trace (world0 Map.empty :: int world)) @ [MODEL_PATH]"
    using none
      lazy_cache [where env = sample_env and w = "world0 Map.empty" and e = FileNotFoundError]
    by blast
  then have miss1: "fst (ensure_model_loaded sample_env (world0 Map.empty)) = Inl FileNotFoundError
      \<and> loads (trace (snd (ensure_model_loaded sample_env (world0 Map.empty)))) = [MODEL_PATH]"
    by (simp only: t0 append.simps)
  have half: "is_None (model_bundle ?half) \<or> is_None (enc_data ?half)"
    "fst (joblib_load sample_env MODEL_PATH ?half) = Inr ?M"
    "fst (joblib_load sample_env ENC_PATH ?half) = Inl FileNotFoundError"
    by (simp_all add: world0_def joblib_load_def sample_env_def MODEL_PATH_def ENC_PATH_def)
  have t1: "loads (trace ?half) = []" "enc_data ?half = PyNone"
    by (simp_all add: world0_def)
  have "fst (ensure_model_loaded sample_env ?half) = Inl FileNotFoundError
      \<and> loads (trace (snd (ensure_model_loaded sample_env ?half)))
          = loads (trace ?half) @ [MODEL_PATH, ENC_PATH]
      \<and> model_bundle (snd (ensure_model_loaded sample_env ?half)) = ?M
      \<and> enc_data (snd (ensure_model_loaded sample_env ?half)) = enc_data ?half"
    using half
      lazy_cache [where env = sample_env and w = ?half
        and e = FileNotFoundError and ?m1.0 = ?M]
    by blast
  then have miss2: "fst (ensure_model_loaded sample_env ?half) = Inl FileNotFoundError
      \<and> loads (trace (snd (ensure_model_loaded sample_env ?half))) = [MODEL_PATH, ENC_PATH]
      \<and> model_bundle (snd (ensure_model_loaded sample_env ?half)) = ?M
      \<and> enc_data (snd (ensure_model_loaded sample_env ?half)) = PyNone"
    by (simp only: t1 append.simps)
  have lost: "is_None (model_bundle ?lost) \<or> is_None (enc_data ?lost)"
    "fst (joblib_load sample_env MODEL_PATH ?lost) = Inr ?M"
    "fst (joblib_load sample_env ENC_PATH ?lost) = Inr ?D"
    by (simp_all add: loaded_world_def both_files_def joblib_load_def sample_env_def
        MODEL_PATH_def ENC_PATH_def)
  have t2: "loads (trace ?lost) = [MODEL_PATH, ENC_PATH]"
    by (simp add: loaded_world_def)
  have "fst (ensure_model_loaded sample_env ?lost) = Inr (?M, ?D)
      \<and> loads (trace (snd (ensure_model_loaded sample_env ?lost)))
          = loads (trace ?lost) @ [MODEL_PATH, ENC_PATH]"
    using lost
      lazy_cache [where env = sample_env and w = ?lost and ?m1.0 = ?M and ?d1.0 = ?D]
    by blast
  then have miss3: "fst (ensure_model_loaded sample_env ?lost) = Inr (?M, ?D)
      \<and> loads (trace (snd (ensure_model_loaded sample_env ?lost)))
          = [MODEL_PATH, ENC_PATH, MODEL_PATH, ENC_PATH]"
    by (simp only: t2 append.simps)
  from sample_load hit miss1 miss2 miss3 show ?thesis
    by blast
qed

text \<open>
  Claim C3 as stated says that after any call that returns, both variables are not
  \<^verbatim>\<open>None\<close> and no file is deserialised again. With an encoder file that deserialises
  to \<^verbatim>\<open>None\<close> the call returns, the variable stays \<^verbatim>\<open>None\<close> and the next call loads
  both files again. With the encoder file absent the first call loads the model and
  raises, and the next call loads the model a second time.
\<close>

theorem cache_miss_counterexample:
  "fst (ensure_model_loaded sample_env (world0 [MODEL_PATH \<mapsto> [1], ENC_PATH \<mapsto> [0]]))
     = Inr (Artifact sample_model, PyNone)
   \<and> is_None (enc_data (snd (ensure_model_loaded sample_env
                               (world0 [MODEL_PATH \<mapsto> [1], ENC_PATH \<mapsto> [0]]))))
   \<and> loads (trace (snd (ensure_model_loaded sample_env
              (snd (ensure_model_loaded sample_env
                     (world0 [MODEL_PATH \<mapsto> [1], ENC_PATH \<mapsto> [0]]))))))
       = [MODEL_PATH, ENC_PATH, MODEL_PATH, ENC_PATH]
   \<and> fst (ensure_model_loaded sample_env (world0 [MODEL_PATH \<mapsto> [1]])) = Inl FileNotFoundError
   \<and> loads (trace (snd (ensure_model_loaded sample_env
              (snd (ensure_model_loaded sample_env (world0 [MODEL_PATH \<mapsto> [1]]))))))
       = [MODEL_PATH, ENC_PATH, MODEL_PATH, ENC_PATH]"
  by (simp add: ensure_model_loaded_def joblib_load_def emit_def
      sample_env_def world0_def MODEL_PATH_def ENC_PATH_def)

lemma dispatch_root:
  "dispatch env \<lparr>req_method = meth, req_path = ''/'', req_form = fm\<rparr> w = index env meth fm w"
  by (simp add: dispatch_def)

lemma index_load_fails:
  "fst (ensure_model_loaded env w) = Inl e \<Longrightarrow> fst (index env POST fm w) = Inl e"
  by (cases "ensure_model_loaded env w") (simp add: index_def)

lemma ensure_missing:
  assumes "is_None (model_bundle w) \<or> is_None (enc_data w)"
    and "\<not> exists w MODEL_PATH \<or> \<not> exists w ENC_PATH"
  shows "\<exists>e. fst (ensure_model_loaded env w) = Inl e"
proof (cases "files w MODEL_PATH")
  case None
  with assms(1) show ?thesis
    by (simp add: ensure_model_loaded_def joblib_load_def)
next
  case (Some b)
  with assms(2) have enc: "files w ENC_PATH = None" by (simp add: exists_def)
  show ?thesis
  proof (cases "unpickle env b")
    case (Inl e)
    with assms(1) Some show ?thesis
      by (simp add: ensure_model_loaded_def joblib_load_def)
  next
    case (Inr m)
    with assms(1) Some enc show ?thesis
      by (simp add: ensure_model_loaded_def joblib_load_def)
  qed
qed

text \<open>
  Claim C6. When the cache is not filled, as it is when the first POST arrives, and
  one of the two files is absent, \<^verbatim>\<open>ensure_model_loaded\<close> raises, and the exception
  leaves the handler of the root route.
\<close>

theorem missing_artifact_raises:
  assumes "is_None (model_bundle w) \<or> is_None (enc_data w)"
    and "\<not> exists w MODEL_PATH \<or> \<not> exists w ENC_PATH"
  shows "\<exists>e. fst (ensure_model_loaded env w) = Inl e
            \<and> fst (dispatch env \<lparr>req_method = POST, req_path = ''/'', req_form = fm\<rparr> w) = Inl e"
proof -
  obtain e where "fst (ensure_model_loaded env w) = Inl e"
    using ensure_missing [OF assms] by blast
  then show ?thesis
    by (auto simp: dispatch_root index_load_fails)
qed

lemma after_failed_download_eq:
  "after_failed_download =
     \<lparr>files = [MODEL_PATH \<mapsto> [1]],
      trace = [Print (Downloading MODEL_PATH ''http://m''), HttpGet ''http://m'',
               Print (Downloaded MODEL_PATH),
               Print (Downloading ENC_PATH ''http://e''), HttpGet ''http://e'',
               Print (DownloadFailed ENC_PATH RequestException)],
      model_bundle = PyNone, enc_data = PyNone\<rparr>"
  by (simp add: after_failed_download_def module_init_def download_if_missing_def
      try_download_def fetch_def save_def exists_def emit_def
      sample_env_def world0_def MODEL_PATH_def ENC_PATH_def)

text \<open>
  The theorem at the world that a failed download of the encoders leaves behind.
\<close>

theorem missing_artifact_raises_witness:
  "is_None (model_bundle after_failed_download)
   \<and> \<not> exists after_failed_download ENC_PATH
   \<and> (\<exists>e. fst (ensure_model_loaded sample_env after_failed_download) = Inl e
          \<and> fst (dispatch sample_env \<lparr>req_method = POST, req_path = ''/'', req_form = []\<rparr>
                   after_failed_download) = Inl e)"
proof -
  have a: "is_None (model_bundle after_failed_download) \<or> is_None (enc_data after_failed_download)"
    by (simp add: after_failed_download_eq)
  have b: "\<not> exists after_failed_download MODEL_PATH \<or> \<not> exists after_failed_download ENC_PATH"
    by (simp add: after_failed_download_eq exists_def MODEL_PATH_def ENC_PATH_def)
  show ?thesis
    using missing_artifact_raises [OF a b, of sample_env "[]"]
    by (simp add: after_failed_download_eq exists_def MODEL_PATH_def ENC_PATH_def)
qed

section \<open>The root route handler\<close>

lemma map_of_set_col:
  "map_of (set_col X c v) k = (if k = c then Some v else map_of X k)"
  by (induction X c v rule: set_col.induct) auto

lemma index_of_Some: "s \<in> set cs \<Longrightarrow> \<exists>i. index_of s cs = Some i"
  by (induction cs) auto

lemma le_transform_ok: "s \<in> set cs \<Longrightarrow> \<exists>i. le_transform cs s = Inr i"
  using index_of_Some [of s cs] by (auto simp: le_transform_def)

lemma encode_cols_ok:
  "distinct (map fst encs) \<Longrightarrow> in_vocabulary env encs X \<Longrightarrow> \<exists>X1. encode_cols env encs X = Inr X1"
proof (induction encs arbitrary: X)
  case Nil
  then show ?case by simp
next
  case (Cons a encs)
  obtain c cls where a: "a = (c, cls)" by (cases a)
  from Cons.prems(2) a obtain v where v: "map_of X c = Some v" "astype_str env v \<in> set cls"
    by (auto simp: in_vocabulary_def split: option.splits)
  then obtain i where i: "le_transform cls (astype_str env v) = Inr i"
    using le_transform_ok by blast
  have "in_vocabulary env encs (set_col X c (CInt i))"
    unfolding in_vocabulary_def list_all_iff
  proof (intro ballI)
    fix x assume x: "x \<in> set encs"
    obtain c' cls' where x': "x = (c', cls')" by (cases x)
    with x Cons.prems(1) a have "c' \<noteq> c" by force
    moreover from Cons.prems(2) x x' have
      "case map_of X c' of None \<Rightarrow> False | Some v \<Rightarrow> astype_str env v \<in> set cls'"
      by (auto simp: in_vocabulary_def list_all_iff)
    ultimately show "case x of (k, classes) \<Rightarrow>
        (case map_of (set_col X c (CInt i)) k of None \<Rightarrow> False
         | Some v \<Rightarrow> astype_str env v \<in> set classes)"
      using x' by (simp add: map_of_set_col)
  qed
  moreover from Cons.prems(1) have "distinct (map fst encs)" by simp
  ultimately obtain X1 where "encode_cols env encs (set_col X c (CInt i)) = Inr X1"
    using Cons.IH by blast
  with a v i show ?case
    by (simp add: bindE_def get_col_def)
qed

lemma results_of_ok:
  "4 \<le> length y \<Longrightarrow>
   results_of env (Inr (y # ys)) =
     Inr [(''Cementitious_Content_kgm3'', round2 env (y ! 0)),
          (''Water_Content_kgm3'', round2 env (y ! 1)),
          (''Fine_Agg_kgm3'', round2 env (y ! 2)),
          (''Coarse_Agg_kgm3'', round2 env (y ! 3))]"
  by (auto simp: results_of_def bindE_def item_def)

lemma input_row_ok:
  "py_float env (form_get fm ''Grade_fck'' (VInt 30)) = Inr fck \<Longrightarrow>
   py_float env (form_get fm ''Max_Aggregate_Size_mm'' (VInt 20)) = Inr max_size \<Longrightarrow>
   input_row env fm =
     Inr (build_row env fck (form_get fm ''Cement_Type'' (VStr ''OPC43''))
            (form_get fm ''Aggregate_Type'' (VStr ''Crushed'')) max_size
            (form_get fm ''Fine_Agg_Zone'' (VStr ''II'')))"
  by (simp add: input_row_def bindE_def)

lemma prepare_input_ok:
  assumes "b_model a = Some model" "b_encoders b = Some encs"
    "b_scaler b = Some scaler" "b_num_cols b = Some num_cols"
    and "input_row env fm = Inr X"
    and "encode_cols env encs X = Inr X1"
    and "scale_cols scaler num_cols X1 = Inr X2"
  shows "prepare_input env (Artifact a) (Artifact b) fm = Inr (model, X2)"
  using assms by (simp add: prepare_input_def getitem_def bindE_def)

lemma index_post_ok:
  assumes "ensure_model_loaded env w = (Inr (mi, ei), w1)"
    and "prepare_input env mi ei fm = Inr (model, X2)"
    and "model X2 = Inr (y # ys)" and "4 \<le> length y"
  shows "index env POST fm w =
     (Inr (Rendered ''index.html''
        (Some [(''Cementitious_Content_kgm3'', round2 env (y ! 0)),
               (''Water_Content_kgm3'', round2 env (y ! 1)),
               (''Fine_Agg_kgm3'', round2 env (y ! 2)),
               (''Coarse_Agg_kgm3'', round2 env (y ! 3))])), emit Predict w1)"
  using assms by (simp add: index_def results_of_ok)

lemma post_ok:
  assumes loaded: "ensure_model_loaded env w = (Inr (Artifact a, Artifact b), w1)"
    and entries: "b_model a = Some model" "b_encoders b = Some encs"
      "b_scaler b = Some scaler" "b_num_cols b = Some num_cols"
    and row: "input_row env fm = Inr X"
    and keys: "distinct (map fst encs)"
    and vocab: "in_vocabulary env encs X"
    and accepts: "\<And>X1. encode_cols env encs X = Inr X1 \<Longrightarrow>
        \<exists>X2 y ys. scale_cols scaler num_cols X1 = Inr X2 \<and> model X2 = Inr (y # ys) \<and> 4 \<le> length y"
  shows "\<exists>X2 y ys. model X2 = Inr (y # ys) \<and>
     index env POST fm w =
       (Inr (Rendered ''index.html''
          (Some [(''Cementitious_Content_kgm3'', round2 env (y ! 0)),
                 (''Water_Content_kgm3'', round2 env (y ! 1)),
                 (''Fine_Agg_kgm3'', round2 env (y ! 2)),
                 (''Coarse_Agg_kgm3'', round2 env (y ! 3))])), emit Predict w1)"
proof -
  obtain X1 where X1: "encode_cols env encs X = Inr X1"
    using encode_cols_ok [OF keys vocab] by blast
  then obtain X2 y ys where p: "scale_cols scaler num_cols X1 = Inr X2"
      "model X2 = Inr (y # ys)" "4 \<le> length y"
    using accepts by blast
  have pi: "prepare_input env (Artifact a) (Artifact b) fm = Inr (model, X2)"
    using entries row X1 p(1) by (rule prepare_input_ok)
  show ?thesis
    using index_post_ok [OF loaded pi p(2,3)] p(2) by blast
qed

text \<open>
  Claim C1, amended. Take a POST request to the root route whose two numeric fields
  convert to floats (an absent field converts through its default), and let \<open>X\<close> be
  the row assembled from it. Suppose both artifacts load as dictionaries that hold the
  four entries, every column that has an encoder is in the row with its value in that
  encoder's vocabulary, and the scaler and the model accept the encoded row, the
  model predicting at least one row of at least four values. Then the handler
  returns the page rendered from \<^verbatim>\<open>index.html\<close> whose results are exactly the four
  named predictions, in this order, each the result of \<^verbatim>\<open>round(., 2)\<close> on the
  corresponding value of the first predicted row.
\<close>

theorem valid_post_predicts:
  assumes loaded: "ensure_model_loaded env w = (Inr (Artifact a, Artifact b), w1)"
    and entries: "b_model a = Some model" "b_encoders b = Some encs"
      "b_scaler b = Some scaler" "b_num_cols b = Some num_cols"
    and grade: "py_float env (form_get fm ''Grade_fck'' (VInt 30)) = Inr fck"
    and size: "py_float env (form_get fm ''Max_Aggregate_Size_mm'' (VInt 20)) = Inr max_size"
    and X: "X = build_row env fck (form_get fm ''Cement_Type'' (VStr ''OPC43''))
                 (form_get fm ''Aggregate_Type'' (VStr ''Crushed'')) max_size
                 (form_get fm ''Fine_Agg_Zone'' (VStr ''II''))"
    and keys: "distinct (map fst encs)"
    and vocab: "in_vocabulary env encs X"
    and accepts: "\<And>X1. encode_cols env encs X = Inr X1 \<Longrightarrow>
        \<exists>X2 y ys. scale_cols scaler num_cols X1 = Inr X2 \<and> model X2 = Inr (y # ys) \<and> 4 \<le> length y"
  shows "\<exists>X2 y ys. model X2 = Inr (y # ys) \<and>
     dispatch env \<lparr>req_method = POST, req_path = ''/'', req_form = fm\<rparr> w =
       (Inr (Rendered ''index.html''
          (Some [(''Cementitious_Content_kgm3'', round2 env (y ! 0)),
                 (''Water_Content_kgm3'', round2 env (y ! 1)),
                 (''Fine_Agg_kgm3'', round2 env (y ! 2)),
                 (''Coarse_Agg_kgm3'', round2 env (y ! 3))])), emit Predict w1)"
proof -
  have row: "input_row env fm = Inr X"
    using input_row_ok [OF grade size] X by simp
  show ?thesis
    unfolding dispatch_root
    using loaded entries row keys vocab accepts by (rule post_ok)
qed

lemma valid_form_grade:
  "py_float sample_env (form_get valid_form ''Grade_fck'' (VInt 30)) = Inr 2500"
  by (simp add: form_get_def valid_form_def sample_env_def)

lemma valid_form_size:
  "py_float sample_env (form_get valid_form ''Max_Aggregate_Size_mm'' (VInt 20)) = Inr 1000"
  by (simp add: form_get_def valid_form_def sample_env_def)

lemma valid_form_row:
  "valid_row = build_row sample_env 2500 (form_get valid_form ''Cement_Type'' (VStr ''OPC43''))
     (form_get valid_form ''Aggregate_Type'' (VStr ''Crushed'')) 1000
     (form_get valid_form ''Fine_Agg_Zone'' (VStr ''II''))"
  by (simp add: valid_row_def build_row_def form_get_def valid_form_def sample_env_def)

lemma valid_form_input_row: "input_row sample_env valid_form = Inr valid_row"
  using input_row_ok [OF valid_form_grade valid_form_size] valid_form_row by simp

lemma valid_row_vocab: "in_vocabulary sample_env sample_vocab valid_row"
  by (simp add: in_vocabulary_def sample_vocab_def valid_row_def)

lemma valid_row_encoded:
  "encode_cols sample_env sample_vocab valid_row =
     Inr [(''Grade_fck'', CFloat 2500), (''Cement_Type'', CInt 1),
      (''Max_Aggregate_Size_mm'', CFloat 1000), (''Aggregate_Type'', CInt 1),
      (''Fine_Agg_Zone'', CInt 2), (''Exposure_Condition'', CInt 1),
      (''Workability_Slump_mm'', CInt 75), (''Admixture_Type'', CInt 0),
      (''Admixture_Dosage_%'', CFloat 100), (''Mineral_Admixture_%'', CFloat 0),
      (''w_c_ratio'', CFloat 38), (''Factor_X'', CFloat 165), (''Std_Deviation_S'', CFloat 500)]"
  by (simp add: sample_vocab_def valid_row_def bindE_def get_col_def le_transform_def)

text \<open>
  The theorem at the sample form and the sample artifacts.
\<close>

theorem valid_post_predicts_witness:
  "dispatch sample_env \<lparr>req_method = POST, req_path = ''/'', req_form = valid_form\<rparr>
     (world0 both_files) =
       (Inr (Rendered ''index.html''
          (Some [(''Cementitious_Content_kgm3'', 41250), (''Water_Content_kgm3'', 16500),
                 (''Fine_Agg_kgm3'', 70025), (''Coarse_Agg_kgm3'', 110075)])),
        emit Predict loaded_world)"
proof -
  let ?model = "\<lambda>X::int row. (Inr [[41250, 16500, 70025, 110075]] :: exn + int list list)"
  let ?scaler = "\<lambda>vs::int cell list. (Inr (map (\<lambda>v. 0) vs) :: exn + int list)"
  let ?cols = "[''Grade_fck'', ''Max_Aggregate_Size_mm'', ''Workability_Slump_mm'']"
  have e: "b_model sample_model = Some ?model" "b_encoders sample_encoders = Some sample_vocab"
    "b_scaler sample_encoders = Some ?scaler" "b_num_cols sample_encoders = Some ?cols"
    by (simp_all add: sample_model_def sample_encoders_def)
  have k: "distinct (map fst sample_vocab)"
    by (simp add: sample_vocab_def)
  have acc: "\<And>X1. encode_cols sample_env sample_vocab valid_row = Inr X1 \<Longrightarrow>
      \<exists>X2 y ys. scale_cols ?scaler ?cols X1 = Inr X2 \<and> ?model X2 = Inr (y # ys) \<and> 4 \<le> length y"
    by (simp add: valid_row_encoded scale_cols_def bindE_def get_col_def)
  show ?thesis
    using valid_post_predicts [OF sample_load e valid_form_grade valid_form_size
        valid_form_row k valid_row_vocab acc]
    by (simp add: sample_env_def)
qed

lemma short_load:
  "ensure_model_loaded sample_env (world0 [MODEL_PATH \<mapsto> [3], ENC_PATH \<mapsto> [2]])
     = (Inr (Artifact short_model, Artifact sample_encoders),
        \<lparr>files = [MODEL_PATH \<mapsto> [3], ENC_PATH \<mapsto> [2]],
         trace = [Print LoadingModels, Load MODEL_PATH, Load ENC_PATH, Print ModelsLoaded],
         model_bundle = Artifact short_model, enc_data = Artifact sample_encoders\<rparr>)"
  by (simp add: ensure_model_loaded_def joblib_load_def emit_def
      sample_env_def world0_def MODEL_PATH_def ENC_PATH_def)

lemma short_prepare:
  "\<exists>X2. prepare_input sample_env (Artifact short_model) (Artifact sample_encoders) valid_form
     = Inr (\<lambda>X. Inr [[41250, 16500, 70025]], X2)"
  by (simp add: prepare_input_def getitem_def bindE_def valid_form_input_row valid_row_encoded
      scale_cols_def get_col_def short_model_def sample_encoders_def)

text \<open>
  Claim C1 as stated asks of the request only that its fields are valid. The sample
  form has both numeric fields parseable and every categorical value in the
  vocabulary of the encoders on disk. With the model file absent the handler raises
  \<^verbatim>\<open>FileNotFoundError\<close> instead of returning a page, and with a model that predicts
  three values it raises \<^verbatim>\<open>IndexError\<close>.
\<close>

theorem valid_post_can_fail:
  "py_float sample_env (form_get valid_form ''Grade_fck'' (VInt 30)) = Inr 2500
   \<and> py_float sample_env (form_get valid_form ''Max_Aggregate_Size_mm'' (VInt 20)) = Inr 1000
   \<and> input_row sample_env valid_form = Inr valid_row
   \<and> in_vocabulary sample_env sample_vocab valid_row
   \<and> fst (dispatch sample_env \<lparr>req_method = POST, req_path = ''/'', req_form = valid_form\<rparr>
        (world0 [ENC_PATH \<mapsto> [2]])) = Inl FileNotFoundError
   \<and> fst (dispatch sample_env \<lparr>req_method = POST, req_path = ''/'', req_form = valid_form\<rparr>
        (world0 [MODEL_PATH \<mapsto> [3], ENC_PATH \<mapsto> [2]])) = Inl IndexError"
proof -
  have a: "fst (index sample_env POST valid_form (world0 [ENC_PATH \<mapsto> [2]]))
      = Inl FileNotFoundError"
    by (simp add: index_def ensure_model_loaded_def joblib_load_def emit_def world0_def
        MODEL_PATH_def ENC_PATH_def)
  obtain X2 where "prepare_input sample_env (Artifact short_model) (Artifact sample_encoders)
      valid_form = Inr (\<lambda>X. Inr [[41250, 16500, 70025]], X2)"
    using short_prepare by blast
  then have b: "fst (index sample_env POST valid_form
      (world0 [MODEL_PATH \<mapsto> [3], ENC_PATH \<mapsto> [2]])) = Inl IndexError"
    by (simp add: index_def short_load results_of_def bindE_def item_def)
  show ?thesis
    using a b
    by (simp add: valid_form_grade valid_form_size valid_row_vocab valid_form_input_row
        dispatch_root)
qed

lemma input_row_cases:
  "input_row env fm = Inr X \<Longrightarrow>
   \<exists>fck max_size. py_float env (form_get fm ''Grade_fck'' (VInt 30)) = Inr fck
     \<and> py_float env (form_get fm ''Max_Aggregate_Size_mm'' (VInt 20)) = Inr max_size
     \<and> X = build_row env fck (form_get fm ''Cement_Type'' (VStr ''OPC43''))
            (form_get fm ''Aggregate_Type'' (VStr ''Crushed'')) max_size
            (form_get fm ''Fine_Agg_Zone'' (VStr ''II''))"
  by (auto simp: input_row_def bindE_def split: sum.splits)

text \<open>
  Claim C2. Whenever the handler assembles a row, the row has thirteen fields with
  distinct names. The first five are the values read from the form, two of them
  converted to floats; the other eight are the constants of the source, the same for
  every request.
\<close>

theorem row_has_thirteen_fields:
  assumes "input_row env fm = Inr X"
  shows "length X = 13 \<and> distinct (map fst X)
    \<and> (\<exists>fck max_size.
          py_float env (form_get fm ''Grade_fck'' (VInt 30)) = Inr fck
          \<and> py_float env (form_get fm ''Max_Aggregate_Size_mm'' (VInt 20)) = Inr max_size
          \<and> take 5 X =
              [(''Grade_fck'', CFloat fck),
               (''Cement_Type'', cell_of (form_get fm ''Cement_Type'' (VStr ''OPC43''))),
               (''Max_Aggregate_Size_mm'', CFloat max_size),
               (''Aggregate_Type'', cell_of (form_get fm ''Aggregate_Type'' (VStr ''Crushed''))),
               (''Fine_Agg_Zone'', cell_of (form_get fm ''Fine_Agg_Zone'' (VStr ''II'')))])
    \<and> drop 5 X =
          [(''Exposure_Condition'', CStr ''Severe''),
           (''Workability_Slump_mm'', CInt 75),
           (''Admixture_Type'', CStr ''Superplasticizer''),
           (''Admixture_Dosage_%'', CFloat (float_lit env ''1.0'')),
           (''Mineral_Admixture_%'', CFloat (float_lit env ''0.0'')),
           (''w_c_ratio'', CFloat (float_lit env ''0.38'')),
           (''Factor_X'', CFloat (float_lit env ''1.65'')),
           (''Std_Deviation_S'', CFloat (float_lit env ''5.0''))]
    \<and> (\<forall>fm' X'. input_row env fm' = Inr X' \<longrightarrow> drop 5 X' = drop 5 X)"
proof -
  obtain fck max_size where r:
    "py_float env (form_get fm ''Grade_fck'' (VInt 30)) = Inr fck"
    "py_float env (form_get fm ''Max_Aggregate_Size_mm'' (VInt 20)) = Inr max_size"
    "X = build_row env fck (form_get fm ''Cement_Type'' (VStr ''OPC43''))
            (form_get fm ''Aggregate_Type'' (VStr ''Crushed'')) max_size
            (form_get fm ''Fine_Agg_Zone'' (VStr ''II''))"
    using input_row_cases [OF assms] by blast
  have len: "length X = 13" using r(3) by (simp add: build_row_def)
  have dis: "distinct (map fst X)" using r(3) by (simp add: build_row_def)
  have tk: "take 5 X =
              [(''Grade_fck'', CFloat fck),
               (''Cement_Type'', cell_of (form_get fm ''Cement_Type'' (VStr ''OPC43''))),
               (''Max_Aggregate_Size_mm'', CFloat max_size),
               (''Aggregate_Type'', cell_of (form_get fm ''Aggregate_Type'' (VStr ''Crushed''))),
               (''Fine_Agg_Zone'', cell_of (form_get fm ''Fine_Agg_Zone'' (VStr ''II'')))]"
    using r(3) by (simp add: build_row_def)
  have dr: "\<And>fm' X'. input_row env fm' = Inr X' \<Longrightarrow> drop 5 X' =
          [(''Exposure_Condition'', CStr ''Severe''),
           (''Workability_Slump_mm'', CInt 75),
           (''Admixture_Type'', CStr ''Superplasticizer''),
           (''Admixture_Dosage_%'', CFloat (float_lit env ''1.0'')),
           (''Mineral_Admixture_%'', CFloat (float_lit env ''0.0'')),
           (''w_c_ratio'', CFloat (float_lit env ''0.38'')),
           (''Factor_X'', CFloat (float_lit env ''1.65'')),
           (''Std_Deviation_S'', CFloat (float_lit env ''5.0''))]"
  proof -
    fix fm' X' assume "input_row env fm' = Inr X'"
    from input_row_cases [OF this] show "drop 5 X' =
          [(''Exposure_Condition'', CStr ''Severe''),
           (''Workability_Slump_mm'', CInt 75),
           (''Admixture_Type'', CStr ''Superplasticizer''),
           (''Admixture_Dosage_%'', CFloat (float_lit env ''1.0'')),
           (''Mineral_Admixture_%'', CFloat (float_lit env ''0.0'')),
           (''w_c_ratio'', CFloat (float_lit env ''0.38'')),
           (''Factor_X'', CFloat (float_lit env ''1.65'')),
           (''Std_Deviation_S'', CFloat (float_lit env ''5.0''))]"
      by (auto simp: build_row_def)
  qed
  from dr [OF assms] dr have "\<forall>fm' X'. input_row env fm' = Inr X' \<longrightarrow> drop 5 X' = drop 5 X"
    by simp
  with len dis tk r(1,2) dr [OF assms] show ?thesis by blast
qed

lemma empty_form_input_row: "input_row env [] = Inr (default_row env)"
  by (simp add: input_row_def bindE_def form_get_def default_row_def)

text \<open>
  The theorem at the sample form, compared with the row of the empty form: the last
  eight fields agree, the first five do not.
\<close>

theorem row_has_thirteen_fields_witness:
  "input_row sample_env valid_form = Inr valid_row
   \<and> length valid_row = 13
   \<and> take 5 valid_row =
       [(''Grade_fck'', CFloat 2500), (''Cement_Type'', CStr ''OPC53''),
        (''Max_Aggregate_Size_mm'', CFloat 1000), (''Aggregate_Type'', CStr ''Rounded''),
        (''Fine_Agg_Zone'', CStr ''III'')]
   \<and> input_row sample_env [] = Inr (default_row sample_env)
   \<and> drop 5 (default_row sample_env) = drop 5 valid_row
   \<and> take 5 (default_row sample_env) \<noteq> take 5 valid_row"
proof -
  have t: "take 5 (default_row sample_env) \<noteq> take 5 valid_row"
    by (simp add: default_row_def build_row_def valid_row_def)
  have u: "take 5 valid_row =
       [(''Grade_fck'', CFloat 2500), (''Cement_Type'', CStr ''OPC53''),
        (''Max_Aggregate_Size_mm'', CFloat 1000), (''Aggregate_Type'', CStr ''Rounded''),
        (''Fine_Agg_Zone'', CStr ''III'')]"
    by (simp add: valid_row_def)
  have len: "length valid_row = 13"
    and indep: "\<forall>fm' X'. input_row sample_env fm' = Inr X' \<longrightarrow> drop 5 X' = drop 5 valid_row"
    using row_has_thirteen_fields [OF valid_form_input_row] by blast+
  have "drop 5 (default_row sample_env) = drop 5 valid_row"
    using indep empty_form_input_row by blast
  with t u len show ?thesis
    by (simp add: valid_form_input_row empty_form_input_row)
qed

lemma input_row_fails:
  "input_row env fm = Inl e \<Longrightarrow>
   e = ValueError \<and>
   ((\<exists>s. map_of fm ''Grade_fck'' = Some s \<and> float_of_str env s = None)
    \<or> (\<exists>s. map_of fm ''Max_Aggregate_Size_mm'' = Some s \<and> float_of_str env s = None))"
  by (auto simp: input_row_def bindE_def form_get_def split: sum.splits option.splits)

lemma input_row_defaults:
  assumes "input_row env fm = Inr X"
  shows "(map_of fm ''Grade_fck'' = None \<longrightarrow>
            map_of X ''Grade_fck'' = Some (CFloat (float_of_int env 30)))
       \<and> (map_of fm ''Cement_Type'' = None \<longrightarrow> map_of X ''Cement_Type'' = Some (CStr ''OPC43''))
       \<and> (map_of fm ''Aggregate_Type'' = None \<longrightarrow>
            map_of X ''Aggregate_Type'' = Some (CStr ''Crushed''))
       \<and> (map_of fm ''Max_Aggregate_Size_mm'' = None \<longrightarrow>
            map_of X ''Max_Aggregate_Size_mm'' = Some (CFloat (float_of_int env 20)))
       \<and> (map_of fm ''Fine_Agg_Zone'' = None \<longrightarrow> map_of X ''Fine_Agg_Zone'' = Some (CStr ''II''))"
proof -
  obtain fck max_size where r:
    "py_float env (form_get fm ''Grade_fck'' (VInt 30)) = Inr fck"
    "py_float env (form_get fm ''Max_Aggregate_Size_mm'' (VInt 20)) = Inr max_size"
    "X = build_row env fck (form_get fm ''Cement_Type'' (VStr ''OPC43''))
            (form_get fm ''Aggregate_Type'' (VStr ''Crushed'')) max_size
            (form_get fm ''Fine_Agg_Zone'' (VStr ''II''))"
    using input_row_cases [OF assms] by blast
  have g: "map_of fm ''Grade_fck'' = None \<longrightarrow> fck = float_of_int env 30"
    using r(1) by (auto simp: form_get_def)
  have m: "map_of fm ''Max_Aggregate_Size_mm'' = None \<longrightarrow> max_size = float_of_int env 20"
    using r(2) by (auto simp: form_get_def)
  show ?thesis
    using g m by (simp add: r(3) build_row_def form_get_def)
qed

text \<open>
  Claim C9, amended. In the row assembled from a form, a field that is absent from
  the form has its default: \<^verbatim>\<open>float(30)\<close>, \<^verbatim>\<open>"OPC43"\<close>, \<^verbatim>\<open>"Crushed"\<close>,
  \<^verbatim>\<open>float(20)\<close> and \<^verbatim>\<open>"II"\<close>. An absent field raises nothing: assembling the row
  fails only with \<^verbatim>\<open>ValueError\<close>, for a numeric field that is present and does not
  convert. The empty form gives the row of the five defaults, and a POST with the
  empty form returns the four predictions when the artifacts load and their
  encoders, scaler and model accept that row.
\<close>

theorem absent_fields_default:
  "(input_row env fm = Inr X \<longrightarrow>
      (map_of fm ''Grade_fck'' = None \<longrightarrow>
         map_of X ''Grade_fck'' = Some (CFloat (float_of_int env 30)))
    \<and> (map_of fm ''Cement_Type'' = None \<longrightarrow> map_of X ''Cement_Type'' = Some (CStr ''OPC43''))
    \<and> (map_of fm ''Aggregate_Type'' = None \<longrightarrow>
         map_of X ''Aggregate_Type'' = Some (CStr ''Crushed''))
    \<and> (map_of fm ''Max_Aggregate_Size_mm'' = None \<longrightarrow>
         map_of X ''Max_Aggregate_Size_mm'' = Some (CFloat (float_of_int env 20)))
    \<and> (map_of fm ''Fine_Agg_Zone'' = None \<longrightarrow> map_of X ''Fine_Agg_Zone'' = Some (CStr ''II'')))
   \<and> (input_row env fm = Inl e \<longrightarrow>
        e = ValueError \<and>
        ((\<exists>s. map_of fm ''Grade_fck'' = Some s \<and> float_of_str env s = None)
         \<or> (\<exists>s. map_of fm ''Max_Aggregate_Size_mm'' = Some s \<and> float_of_str env s = None)))
   \<and> input_row env [] = Inr (default_row env)
   \<and> (ensure_model_loaded env w = (Inr (Artifact a, Artifact b), w1)
        \<and> b_model a = Some model \<and> b_encoders b = Some encs
        \<and> b_scaler b = Some scaler \<and> b_num_cols b = Some num_cols
        \<and> distinct (map fst encs) \<and> in_vocabulary env encs (default_row env)
        \<and> (\<forall>X1. encode_cols env encs (default_row env) = Inr X1 \<longrightarrow>
              (\<exists>X2 y ys. scale_cols scaler num_cols X1 = Inr X2 \<and> model X2 = Inr (y # ys)
                  \<and> 4 \<le> length y)) \<longrightarrow>
      (\<exists>X2 y ys. model X2 = Inr (y # ys) \<and>
         dispatch env \<lparr>req_method = POST, req_path = ''/'', req_form = []\<rparr> w =
           (Inr (Rendered ''index.html''
              (Some [(''Cementitious_Content_kgm3'', round2 env (y ! 0)),
                     (''Water_Content_kgm3'', round2 env (y ! 1)),
                     (''Fine_Agg_kgm3'', round2 env (y ! 2)),
                     (''Coarse_Agg_kgm3'', round2 env (y ! 3))])), emit Predict w1)))"
proof (intro conjI impI)
  assume "input_row env fm = Inl e"
  from input_row_fails [OF this] show "e = ValueError"
    and "(\<exists>s. map_of fm ''Grade_fck'' = Some s \<and> float_of_str env s = None)
         \<or> (\<exists>s. map_of fm ''Max_Aggregate_Size_mm'' = Some s \<and> float_of_str env s = None)"
    by blast+
next
  show "input_row env [] = Inr (default_row env)" by (rule empty_form_input_row)
next
  assume h: "ensure_model_loaded env w = (Inr (Artifact a, Artifact b), w1)
        \<and> b_model a = Some model \<and> b_encoders b = Some encs
        \<and> b_scaler b = Some scaler \<and> b_num_cols b = Some num_cols
        \<and> distinct (map fst encs) \<and> in_vocabulary env encs (default_row env)
        \<and> (\<forall>X1. encode_cols env encs (default_row env) = Inr X1 \<longrightarrow>
              (\<exists>X2 y ys. scale_cols scaler num_cols X1 = Inr X2 \<and> model X2 = Inr (y # ys)
                  \<and> 4 \<le> length y))"
  then have acc: "\<And>X1. encode_cols env encs (default_row env) = Inr X1 \<Longrightarrow>
      \<exists>X2 y ys. scale_cols scaler num_cols X1 = Inr X2 \<and> model X2 = Inr (y # ys) \<and> 4 \<le> length y"
    by blast
  from h have l: "ensure_model_loaded env w = (Inr (Artifact a, Artifact b), w1)"
    and e: "b_model a = Some model" "b_encoders b = Some encs"
      "b_scaler b = Some scaler" "b_num_cols b = Some num_cols"
    and k: "distinct (map fst encs)" and v: "in_vocabulary env encs (default_row env)"
    by blast+
  show "\<exists>X2 y ys. model X2 = Inr (y # ys) \<and>
         dispatch env \<lparr>req_method = POST, req_path = ''/'', req_form = []\<rparr> w =
           (Inr (Rendered ''index.html''
              (Some [(''Cementitious_Content_kgm3'', round2 env (y ! 0)),
                     (''Water_Content_kgm3'', round2 env (y ! 1)),
                     (''Fine_Agg_kgm3'', round2 env (y ! 2)),
                     (''Coarse_Agg_kgm3'', round2 env (y ! 3))])), emit Predict w1)"
    unfolding dispatch_root
    using l e empty_form_input_row k v acc by (rule post_ok)
next
  assume r: "input_row env fm = Inr X"
  {
    assume "map_of fm ''Grade_fck'' = None"
    then show "map_of X ''Grade_fck'' = Some (CFloat (float_of_int env 30))"
      using input_row_defaults [OF r] by blast
  }
  {
    assume "map_of fm ''Cement_Type'' = None"
    then show "map_of X ''Cement_Type'' = Some (CStr ''OPC43'')"
      using input_row_defaults [OF r] by blast
  }
  {
    assume "map_of fm ''Aggregate_Type'' = None"
    then show "map_of X ''Aggregate_Type'' = Some (CStr ''Crushed'')"
      using input_row_defaults [OF r] by blast
  }
  {
    assume "map_of fm ''Max_Aggregate_Size_mm'' = None"
    then show "map_of X ''Max_Aggregate_Size_mm'' = Some (CFloat (float_of_int env 20))"
      using input_row_defaults [OF r] by blast
  }
  {
    assume "map_of fm ''Fine_Agg_Zone'' = None"
    then show "map_of X ''Fine_Agg_Zone'' = Some (CStr ''II'')"
      using input_row_defaults [OF r] by blast
  }
qed

lemma default_row_vocab: "in_vocabulary sample_env sample_vocab (default_row sample_env)"
  by (simp add: in_vocabulary_def sample_vocab_def default_row_def build_row_def)

lemma default_row_accepted:
  "encode_cols sample_env sample_vocab (default_row sample_env) = Inr X1 \<Longrightarrow>
   \<exists>X2 y ys. scale_cols (\<lambda>vs::int cell list. (Inr (map (\<lambda>v. 0) vs) :: exn + int list))
        [''Grade_fck'', ''Max_Aggregate_Size_mm'', ''Workability_Slump_mm''] X1 = Inr X2
      \<and> (Inr [[41250, 16500, 70025, 110075]] :: exn + int list list) = Inr (y # ys)
      \<and> 4 \<le> length y"
  by (auto simp: sample_vocab_def default_row_def build_row_def bindE_def get_col_def
      le_transform_def scale_cols_def)

text \<open>
  The theorem at the empty form and the sample artifacts, and at a form whose
  aggregate size is not a number.
\<close>

theorem absent_fields_default_witness:
  "map_of ([] :: form) ''Cement_Type'' = None
   \<and> input_row sample_env [] = Inr (default_row sample_env)
   \<and> map_of (default_row sample_env) ''Grade_fck'' = Some (CFloat 3000)
   \<and> map_of (default_row sample_env) ''Cement_Type'' = Some (CStr ''OPC43'')
   \<and> map_of (default_row sample_env) ''Aggregate_Type'' = Some (CStr ''Crushed'')
   \<and> map_of (default_row sample_env) ''Max_Aggregate_Size_mm'' = Some (CFloat 2000)
   \<and> map_of (default_row sample_env) ''Fine_Agg_Zone'' = Some (CStr ''II'')
   \<and> dispatch sample_env \<lparr>req_method = POST, req_path = ''/'', req_form = []\<rparr>
        (world0 both_files) =
          (Inr (Rendered ''index.html''
             (Some [(''Cementitious_Content_kgm3'', 41250), (''Water_Content_kgm3'', 16500),
                    (''Fine_Agg_kgm3'', 70025), (''Coarse_Agg_kgm3'', 110075)])),
           emit Predict loaded_world)
   \<and> input_row sample_env [(''Max_Aggregate_Size_mm'', ''abc'')] = Inl ValueError
   \<and> ((\<exists>s. map_of [(''Max_Aggregate_Size_mm'', ''abc'')] ''Grade_fck'' = Some s
            \<and> float_of_str sample_env s = None)
        \<or> (\<exists>s. map_of [(''Max_Aggregate_Size_mm'', ''abc'')] ''Max_Aggregate_Size_mm'' = Some s
            \<and> float_of_str sample_env s = None))"
proof -
  let ?model = "\<lambda>X::int row. (Inr [[41250, 16500, 70025, 110075]] :: exn + int list list)"
  let ?scaler = "\<lambda>vs::int cell list. (Inr (map (\<lambda>v. 0) vs) :: exn + int list)"
  let ?cols = "[''Grade_fck'', ''Max_Aggregate_Size_mm'', ''Workability_Slump_mm'']"
  have bad: "input_row sample_env [(''Max_Aggregate_Size_mm'', ''abc'')] = Inl ValueError"
    by (simp add: input_row_def bindE_def form_get_def sample_env_def)
  have why: "(\<exists>s. map_of [(''Max_Aggregate_Size_mm'', ''abc'')] ''Grade_fck'' = Some s
            \<and> float_of_str sample_env s = None)
        \<or> (\<exists>s. map_of [(''Max_Aggregate_Size_mm'', ''abc'')] ''Max_Aggregate_Size_mm'' = Some s
            \<and> float_of_str sample_env s = None)"
    using bad absent_fields_default [of sample_env "[(''Max_Aggregate_Size_mm'', ''abc'')]" _
        ValueError]
    by blast
  have e: "b_model sample_model = Some ?model" "b_encoders sample_encoders = Some sample_vocab"
    "b_scaler sample_encoders = Some ?scaler" "b_num_cols sample_encoders = Some ?cols"
    by (simp_all add: sample_model_def sample_encoders_def)
  have k: "distinct (map fst sample_vocab)"
    by (simp add: sample_vocab_def)
  have acc: "\<forall>X1. encode_cols sample_env sample_vocab (default_row sample_env) = Inr X1 \<longrightarrow>
      (\<exists>X2 y ys. scale_cols ?scaler ?cols X1 = Inr X2 \<and> ?model X2 = Inr (y # ys) \<and> 4 \<le> length y)"
    using default_row_accepted by blast
  have fl: "float_of_int sample_env 30 = 3000" "float_of_int sample_env 20 = 2000"
    "round2 sample_env = (\<lambda>x. x)"
    by (simp_all add: sample_env_def)
  have post: "\<exists>X2 y ys. ?model X2 = Inr (y # ys) \<and>
         dispatch sample_env \<lparr>req_method = POST, req_path = ''/'', req_form = []\<rparr>
           (world0 both_files) =
           (Inr (Rendered ''index.html''
              (Some [(''Cementitious_Content_kgm3'', round2 sample_env (y ! 0)),
                     (''Water_Content_kgm3'', round2 sample_env (y ! 1)),
                     (''Fine_Agg_kgm3'', round2 sample_env (y ! 2)),
                     (''Coarse_Agg_kgm3'', round2 sample_env (y ! 3))])), emit Predict loaded_world)"
    and dflt: "input_row sample_env [] = Inr (default_row sample_env) \<longrightarrow>
      (map_of ([] :: form) ''Grade_fck'' = None \<longrightarrow>
         map_of (default_row sample_env) ''Grade_fck'' = Some (CFloat (float_of_int sample_env 30)))
    \<and> (map_of ([] :: form) ''Cement_Type'' = None \<longrightarrow>
         map_of (default_row sample_env) ''Cement_Type'' = Some (CStr ''OPC43''))
    \<and> (map_of ([] :: form) ''Aggregate_Type'' = None \<longrightarrow>
         map_of (default_row sample_env) ''Aggregate_Type'' = Some (CStr ''Crushed''))
    \<and> (map_of ([] :: form) ''Max_Aggregate_Size_mm'' = None \<longrightarrow>
         map_of (default_row sample_env) ''Max_Aggregate_Size_mm''
           = Some (CFloat (float_of_int sample_env 20)))
    \<and> (map_of ([] :: form) ''Fine_Agg_Zone'' = None \<longrightarrow>
         map_of (default_row sample_env) ''Fine_Agg_Zone'' = Some (CStr ''II''))"
    and emp: "input_row sample_env [] = Inr (default_row sample_env)"
    using absent_fields_default [of sample_env "[]" "default_row sample_env" _
        "world0 both_files" sample_model sample_encoders loaded_world
        ?model sample_vocab ?scaler ?cols]
      sample_load e k default_row_vocab acc
    by blast+
  from post have "dispatch sample_env \<lparr>req_method = POST, req_path = ''/'', req_form = []\<rparr>
        (world0 both_files) =
          (Inr (Rendered ''index.html''
             (Some [(''Cementitious_Content_kgm3'', 41250), (''Water_Content_kgm3'', 16500),
                    (''Fine_Agg_kgm3'', 70025), (''Coarse_Agg_kgm3'', 110075)])),
           emit Predict loaded_world)"
    by (auto simp: fl)
  with dflt emp bad why show ?thesis
    by (simp add: fl)
qed

text \<open>
  Claim C9 as stated says that a POST with absent fields does not fail. A form that
  lacks four fields and carries a fifth that is not a number raises \<^verbatim>\<open>ValueError\<close>
  with both artifacts loaded, and the empty form raises when the files are absent.
\<close>

theorem absent_fields_can_fail:
  "map_of [(''Max_Aggregate_Size_mm'', ''abc'')] ''Grade_fck'' = None
   \<and> fst (dispatch sample_env
            \<lparr>req_method = POST, req_path = ''/'',
             req_form = [(''Max_Aggregate_Size_mm'', ''abc'')]\<rparr> (world0 both_files))
       = Inl ValueError
   \<and> fst (dispatch sample_env \<lparr>req_method = POST, req_path = ''/'', req_form = []\<rparr>
            (world0 Map.empty))
       = Inl FileNotFoundError"
proof -
  have "prepare_input sample_env (Artifact sample_model) (Artifact sample_encoders)
          [(''Max_Aggregate_Size_mm'', ''abc'')] = Inl ValueError"
    by (simp add: prepare_input_def getitem_def bindE_def input_row_def form_get_def
        sample_model_def sample_encoders_def sample_env_def)
  then have "fst (index sample_env POST [(''Max_Aggregate_Size_mm'', ''abc'')] (world0 both_files))
       = Inl ValueError"
    by (simp add: index_def sample_load)
  moreover have "fst (index sample_env POST [] (world0 Map.empty)) = Inl FileNotFoundError"
    by (simp add: index_def ensure_model_loaded_def joblib_load_def world0_def)
  ultimately show ?thesis
    by (simp add: dispatch_root)
qed

lemma predictions_append [simp]:
  "predictions (xs @ ys) = predictions xs + predictions ys"
  by (induction xs rule: predictions.induct) auto

lemma ensure_predictions:
  "predictions (trace (snd (ensure_model_loaded env w))) = predictions (trace w)"
proof (cases "is_None (model_bundle w) \<or> is_None (enc_data w)")
  case False
  then show ?thesis by (simp add: ensure_model_loaded_def)
next
  case True
  let ?w0 = "emit (Print LoadingModels) w"
  obtain r1 w1 where l1: "joblib_load env MODEL_PATH ?w0 = (r1, w1)"
    by (cases "joblib_load env MODEL_PATH ?w0")
  then have w1: "w1 = emit (Load MODEL_PATH) ?w0"
    using joblib_load_snd [of env MODEL_PATH ?w0] by simp
  show ?thesis
  proof (cases r1)
    case (Inl e)
    with True l1 w1 show ?thesis by (simp add: ensure_model_loaded_def emit_def)
  next
    case (Inr m1)
    obtain r2 w2 where l2: "joblib_load env ENC_PATH (w1\<lparr>model_bundle := m1\<rparr>) = (r2, w2)"
      by (cases "joblib_load env ENC_PATH (w1\<lparr>model_bundle := m1\<rparr>)")
    then have w2: "w2 = emit (Load ENC_PATH) (w1\<lparr>model_bundle := m1\<rparr>)"
      using joblib_load_snd [of env ENC_PATH "w1\<lparr>model_bundle := m1\<rparr>"] by simp
    from True l1 l2 Inr w1 w2 show ?thesis
      by (cases r2) (simp_all add: ensure_model_loaded_def emit_def Let_def)
  qed
qed

lemma prepare_input_fails:
  "input_row env fm = Inl e \<Longrightarrow> \<exists>e'. prepare_input env mi ei fm = Inl e'"
  by (auto simp: prepare_input_def bindE_def split: sum.splits)

lemma prepare_input_value_error:
  "input_row env fm = Inl e \<Longrightarrow>
   b_model a \<noteq> None \<Longrightarrow> b_encoders b \<noteq> None \<Longrightarrow> b_scaler b \<noteq> None \<Longrightarrow> b_num_cols b \<noteq> None \<Longrightarrow>
   prepare_input env (Artifact a) (Artifact b) fm = Inl e"
  by (auto simp: prepare_input_def getitem_def bindE_def split: sum.splits)

lemma input_row_unparseable:
  assumes "(\<exists>s. map_of fm ''Grade_fck'' = Some s \<and> float_of_str env s = None)
    \<or> (\<exists>s. map_of fm ''Max_Aggregate_Size_mm'' = Some s \<and> float_of_str env s = None)"
  shows "input_row env fm = Inl ValueError"
  using assms
  by (auto simp: input_row_def bindE_def form_get_def split: sum.splits option.splits)

text \<open>
  Claim C10. A POST to the root route whose \<^verbatim>\<open>Grade_fck\<close> or
  \<^verbatim>\<open>Max_Aggregate_Size_mm\<close> value does not convert to a float ends in an exception
  that leaves the handler, and the model is not called. When the artifacts load with
  their four entries the exception is the \<^verbatim>\<open>ValueError\<close> of the conversion.
\<close>

theorem unparseable_float_raises:
  assumes "(\<exists>s. map_of fm ''Grade_fck'' = Some s \<and> float_of_str env s = None)
    \<or> (\<exists>s. map_of fm ''Max_Aggregate_Size_mm'' = Some s \<and> float_of_str env s = None)"
  shows "(\<exists>e. fst (dispatch env \<lparr>req_method = POST, req_path = ''/'', req_form = fm\<rparr> w) = Inl e)
    \<and> predictions (trace (snd (dispatch env
          \<lparr>req_method = POST, req_path = ''/'', req_form = fm\<rparr> w))) = predictions (trace w)
    \<and> (ensure_model_loaded env w = (Inr (Artifact a, Artifact b), w1)
         \<and> b_model a \<noteq> None \<and> b_encoders b \<noteq> None \<and> b_scaler b \<noteq> None \<and> b_num_cols b \<noteq> None
       \<longrightarrow> dispatch env \<lparr>req_method = POST, req_path = ''/'', req_form = fm\<rparr> w
             = (Inl ValueError, w1))"
proof -
  have row: "input_row env fm = Inl ValueError"
    using assms by (rule input_row_unparseable)
  obtain r w' where l: "ensure_model_loaded env w = (r, w')"
    by (cases "ensure_model_loaded env w")
  then have p: "predictions (trace w') = predictions (trace w)"
    using ensure_predictions [of env w] by simp
  have raises: "(\<exists>e. fst (index env POST fm w) = Inl e)
      \<and> predictions (trace (snd (index env POST fm w))) = predictions (trace w)"
  proof (cases r)
    case (Inl e)
    with l p show ?thesis by (simp add: index_def)
  next
    case (Inr loaded)
    obtain mi ei where loaded: "loaded = (mi, ei)" by (cases loaded)
    obtain e' where "prepare_input env mi ei fm = Inl e'"
      using prepare_input_fails [OF row] by blast
    with l p Inr loaded show ?thesis by (simp add: index_def)
  qed
  have "ensure_model_loaded env w = (Inr (Artifact a, Artifact b), w1)
         \<and> b_model a \<noteq> None \<and> b_encoders b \<noteq> None \<and> b_scaler b \<noteq> None \<and> b_num_cols b \<noteq> None
       \<longrightarrow> index env POST fm w = (Inl ValueError, w1)"
    using prepare_input_value_error [OF row, of a b]
    by (auto simp: index_def)
  with raises show ?thesis
    by (simp add: dispatch_root)
qed

text \<open>
  The theorem at a form whose grade is written \<^verbatim>\<open>M30\<close>.
\<close>

theorem unparseable_float_raises_witness:
  "map_of [(''Grade_fck'', ''M30'')] ''Grade_fck'' = Some ''M30''
   \<and> float_of_str sample_env ''M30'' = None
   \<and> dispatch sample_env \<lparr>req_method = POST, req_path = ''/'', req_form = [(''Grade_fck'', ''M30'')]\<rparr>
        (world0 both_files) = (Inl ValueError, loaded_world)
   \<and> predictions (trace loaded_world) = 0"
proof -
  have a: "(\<exists>s. map_of [(''Grade_fck'', ''M30'')] ''Grade_fck'' = Some s \<and> float_of_str sample_env s = None)
    \<or> (\<exists>s. map_of [(''Grade_fck'', ''M30'')] ''Max_Aggregate_Size_mm'' = Some s
           \<and> float_of_str sample_env s = None)"
    by (simp add: sample_env_def)
  have e: "b_model sample_model \<noteq> None" "b_encoders sample_encoders \<noteq> None"
    "b_scaler sample_encoders \<noteq> None" "b_num_cols sample_encoders \<noteq> None"
    by (simp_all add: sample_model_def sample_encoders_def)
  have "dispatch sample_env \<lparr>req_method = POST, req_path = ''/'', req_form = [(''Grade_fck'', ''M30'')]\<rparr>
        (world0 both_files) = (Inl ValueError, loaded_world)"
    using unparseable_float_raises [OF a, of "world0 both_files" sample_model sample_encoders
        loaded_world] sample_load e
    by blast
  then show ?thesis
    by (simp add: sample_env_def loaded_world_def)
qed

section \<open>The health route\<close>

text \<open>
  Claim C7. For every GET request to \<^verbatim>\<open>/health\<close> the answer is the body \<^verbatim>\<open>ok\<close> with
  status 200, whatever the world is: whether the artifact files exist, and whatever
  the two cache variables hold. The world is returned as it was.
\<close>

theorem health_ok:
  "dispatch env \<lparr>req_method = GET, req_path = ''/health'', req_form = fm\<rparr> w
     = (Inr (Body ''ok'' 200), w)"
  by (simp add: dispatch_def health_def)

end
